theory Spec2Isabelle
  imports Main
begin

chapter \<open>Silex: the document store, the backend registry and the publication jobs\<close>

text \<open>
  A shallow embedding of \<open>client/flux/store.ts\<close> (the redux store and its slice
  subscriptions), of \<open>ts/server/backends/index.ts\<close> (backend resolution, the backend
  descriptor, the four routes) and of the job types of \<open>types.ts\<close>,
  followed by the properties proved of them. Promises are modelled by their outcome
  (\<open>Inl\<close> a rejection, \<open>Inr\<close> the value), thrown errors by values, and the mutable
  module state by explicit state passing. What the sources do not contain (the crud
  store, \<open>requiredParam\<close>, the publication orchestrator) is modelled from the
  specification and marked so.
\<close>

section \<open>The document store (client/flux/store.ts)\<close>

text \<open>
  The redux state has four slices. Every slice value is a JavaScript object (an array for
  \<open>pages\<close> and \<open>elements\<close>), and the store compares slices with \<open>!==\<close>, that is
  by object identity. A slice snapshot is therefore modelled by its identity, a \<open>ref\<close>:
  two snapshots are the same JavaScript object exactly when their \<open>ref\<close>s are equal.
\<close>

type_synonym ref = nat

record State =
  pages :: ref
  elements :: ref
  site :: ref
  ui :: ref

text \<open>
  The values a callback can receive: \<open>null\<close> (no previous state yet), a slice
  snapshot, the value of a property that the state object inherits from
  \<open>Object.prototype\<close> (the same value in every state), or \<open>undefined\<close> (\<open>state[name]\<close>
  for any other name).
\<close>

datatype jsval = Null | Undefined | Obj ref | Inherited string

text \<open>The properties of \<open>Object.prototype\<close>.\<close>

definition inheritedNames :: "string list" where
  "inheritedNames =
     [''constructor'', ''toString'', ''toLocaleString'', ''valueOf'', ''hasOwnProperty'',
      ''isPrototypeOf'', ''propertyIsEnumerable'', ''__proto__'', ''__defineGetter__'',
      ''__defineSetter__'', ''__lookupGetter__'', ''__lookupSetter__'']"

text \<open>\<open>state[name]\<close>\<close>

definition slice :: "string \<Rightarrow> State \<Rightarrow> jsval" where
  "slice name s =
     (if name = ''pages'' then Obj (pages s)
      else if name = ''elements'' then Obj (elements s)
      else if name = ''site'' then Obj (site s)
      else if name = ''ui'' then Obj (ui s)
      else if name \<in> set inheritedNames then Inherited name
      else Undefined)"

text \<open>
  The listeners of the redux store, in subscription order. \<open>Tracker\<close> is the listener the
  module registers itself (\<open>prevState = curState; curState = store.getState()\<close>);
  \<open>Subscriber k name\<close> is the closure registered by the \<open>k\<close>-th call of
  \<open>subscribeToCrud(name, cbk)\<close> or \<open>subscribeTo(name, cbk)\<close>.
\<close>

datatype listener = Tracker | Subscriber nat string

text \<open>One invocation \<open>cbk(prev, next)\<close> of the callback of subscription \<open>call_sub\<close>.\<close>

record call =
  call_sub :: nat
  call_prev :: jsval
  call_next :: jsval

text \<open>
  The redux store together with the two module variables \<open>prevState\<close> and \<open>curState\<close>
  (\<open>None\<close> is \<open>undefined\<close>, their value until the first notification).
\<close>

record Store =
  currentState :: State
  listeners :: "listener list"
  prevState :: "State option"
  curState :: "State option"
  nextSub :: nat

text \<open>
  Loading the module: \<open>createStore\<close> (whose initial state is \<open>init\<close>; no listener exists
  yet when redux dispatches its own initial action), then the module's
  \<open>store.subscribe\<close> of the tracker.
\<close>

definition createStore :: "State \<Rightarrow> Store" where
  "createStore init =
     \<lparr>currentState = init, listeners = [Tracker], prevState = None, curState = None,
      nextSub = 0\<rparr>"

text \<open>\<open>store.subscribe(listener)\<close> appends; the result is the handle of the unsubscribe function.\<close>

definition subscribeToCrud :: "string \<Rightarrow> Store \<Rightarrow> nat \<times> Store" where
  "subscribeToCrud name st =
     (nextSub st,
      st\<lparr>listeners := listeners st @ [Subscriber (nextSub st) name],
         nextSub := Suc (nextSub st)\<rparr>)"

definition subscribeTo :: "string \<Rightarrow> Store \<Rightarrow> nat \<times> Store" where
  "subscribeTo name st =
     (nextSub st,
      st\<lparr>listeners := listeners st @ [Subscriber (nextSub st) name],
         nextSub := Suc (nextSub st)\<rparr>)"

fun is_sub :: "nat \<Rightarrow> listener \<Rightarrow> bool" where
  "is_sub k Tracker = False"
| "is_sub k (Subscriber j name) = (j = k)"

definition unsubscribe :: "nat \<Rightarrow> Store \<Rightarrow> Store" where
  "unsubscribe k st = st\<lparr>listeners := filter (\<lambda>l. \<not> is_sub k l) (listeners st)\<rparr>"

text \<open>
  Running one listener. The second component collects the callback invocations.
  The subscriber's body is
  \<^verbatim>\<open>if (!prevState || state[name] !== prevState[name])
     cbk(prevState ? prevState[name] : null, state[name])\<close>
\<close>

fun run_listener :: "listener \<Rightarrow> Store \<times> call list \<Rightarrow> Store \<times> call list" where
  "run_listener Tracker (st, out) =
     (st\<lparr>prevState := curState st, curState := Some (currentState st)\<rparr>, out)"
| "run_listener (Subscriber k name) (st, out) =
     (case prevState st of
        None \<Rightarrow>
          (st, out @ [\<lparr>call_sub = k, call_prev = Null,
                        call_next = slice name (currentState st)\<rparr>])
      | Some p \<Rightarrow>
          if slice name (currentState st) \<noteq> slice name p
          then (st, out @ [\<lparr>call_sub = k, call_prev = slice name p,
                             call_next = slice name (currentState st)\<rparr>])
          else (st, out))"

text \<open>
  \<open>store.dispatch(action)\<close>: redux replaces the state by \<open>reducer(state, action)\<close> and then
  calls every listener, in subscription order. The root reducer (\<open>combineReducers\<close> of
  \<open>withCrud\<close> reducers defined elsewhere) is a parameter.
\<close>

definition dispatch :: "(State \<Rightarrow> 'a \<Rightarrow> State) \<Rightarrow> 'a \<Rightarrow> Store \<Rightarrow> Store \<times> call list" where
  "dispatch reducer action st =
     (let st' = st\<lparr>currentState := reducer (currentState st) action\<rparr>
      in fold run_listener (listeners st') (st', []))"

text \<open>
  What holds of every store built by loading the module and then subscribing,
  unsubscribing and dispatching: the tracker is the first listener and the only tracker,
  subscription handles are distinct and below \<open>nextSub\<close>, and \<open>curState\<close> is either still
  undefined or the current state.
\<close>

fun sub_handles :: "listener list \<Rightarrow> nat list" where
  "sub_handles [] = []"
| "sub_handles (Tracker # ls) = sub_handles ls"
| "sub_handles (Subscriber k name # ls) = k # sub_handles ls"

definition store_inv :: "Store \<Rightarrow> bool" where
  "store_inv st =
     ((case listeners st of
         Tracker # ls \<Rightarrow>
           Tracker \<notin> set ls \<and> distinct (sub_handles ls) \<and>
           list_all (\<lambda>k. k < nextSub st) (sub_handles ls)
       | _ \<Rightarrow> False) \<and>
      (curState st = None \<or> curState st = Some (currentState st)))"

text \<open>
  The callbacks one listener invokes when it runs in store \<open>st\<close> (a proof device: the
  output of \<open>run_listener\<close> without the threading of the store).
\<close>

fun emitted :: "Store \<Rightarrow> listener \<Rightarrow> call list" where
  "emitted st Tracker = []"
| "emitted st (Subscriber k name) =
     (case prevState st of
        None \<Rightarrow>
          [\<lparr>call_sub = k, call_prev = Null, call_next = slice name (currentState st)\<rparr>]
      | Some p \<Rightarrow>
          if slice name (currentState st) \<noteq> slice name p
          then [\<lparr>call_sub = k, call_prev = slice name p,
                 call_next = slice name (currentState st)\<rparr>]
          else [])"

text \<open>The store after the tracker has run on the new state \<open>s\<close>.\<close>

definition tracked :: "State \<Rightarrow> Store \<Rightarrow> Store" where
  "tracked s st = st\<lparr>currentState := s, prevState := curState st, curState := Some s\<rparr>"

text \<open>
  A concrete run: the initial state, a reducer whose action \<open>Inl r\<close> replaces the
  \<open>pages\<close> slice by the snapshot \<open>r\<close> and whose action \<open>Inr r\<close> replaces the
  \<open>elements\<close> slice, and the store after loading the module and subscribing once to
  \<open>pages\<close>.
\<close>

definition state0 :: State where
  "state0 = \<lparr>pages = 0, elements = 1, site = 2, ui = 3\<rparr>"

fun reducer0 :: "State \<Rightarrow> ref + ref \<Rightarrow> State" where
  "reducer0 s (Inl r) = s\<lparr>pages := r\<rparr>"
| "reducer0 s (Inr r) = s\<lparr>elements := r\<rparr>"

definition store0 :: Store where
  "store0 = snd (subscribeToCrud ''pages'' (createStore state0))"

text \<open>The same store after a first dispatch, which replaces the \<open>elements\<close> slice.\<close>

definition store1 :: Store where
  "store1 = fst (dispatch reducer0 (Inr 7) store0)"

section \<open>Backends (server/backends/index.ts, types.ts)\<close>

datatype BackendType = STORAGE | HOSTING

text \<open>
  A thrown value, as the routes read it: \<open>error.code\<close> (\<open>None\<close> when undefined) and
  \<open>error.message\<close>. A promise that rejects is \<open>Inl\<close>, one that resolves is \<open>Inr\<close>.
\<close>

record Error =
  err_code :: "nat option"
  err_message :: string

text \<open>
  The interface \<open>Backend\<close>, with \<open>getSiteMeta\<close> of \<open>StorageProvider\<close> (the routes call it
  on backends of type \<open>STORAGE\<close> only). The session is of type \<open>any\<close>: a value of
  \<open>'s option\<close>, where \<open>None\<close> is \<open>undefined\<close>. User data (\<open>'u\<close>) and website meta data
  (\<open>'m\<close>) are passed through unread. The operations are functions of the session: two
  calls on the same session give the same answer.
\<close>

record ('s, 'u, 'm) Backend =
  backend_id :: string
  displayName :: string
  icon :: string
  disableLogout :: "bool option"
  backend_type :: BackendType
  getAuthorizeURL :: "'s option \<Rightarrow> Error + string option"
  isLoggedIn :: "'s option \<Rightarrow> Error + bool"
  logout :: "'s option \<Rightarrow> Error + unit"
  getUserData :: "'s option \<Rightarrow> Error + 'u"
  getSiteMeta :: "'s option \<Rightarrow> string \<Rightarrow> Error + 'm"

text \<open>The interface \<open>BackendData\<close> of types.ts, sent to the front end.\<close>

record BackendData =
  bd_backendId :: string
  bd_type :: BackendType
  bd_displayName :: string
  bd_icon :: string
  bd_disableLogout :: bool
  bd_isLoggedIn :: bool
  bd_authUrl :: "string option"

text \<open>
  \<open>ServerConfig\<close> is not among the sources; the one method the backends module calls is a
  parameter: \<open>config.getBackends(type)\<close>, the registered backends of a type in
  registration order. The type argument is \<open>None\<close> when it is \<open>undefined\<close>.
\<close>

record ('s, 'u, 'm) ServerConfig =
  getBackends :: "BackendType option \<Rightarrow> ('s, 'u, 'm) Backend list"

text \<open>
  \<open>BackendType[type.toUpperCase()]\<close>: undefined when the enum has no such member.
  \<open>String.prototype.toUpperCase\<close> is a built-in of the language, with the case mapping
  of Unicode (it maps the long s, U+017F, to \<open>S\<close>, for one); it is a parameter here,
  so that what is proved of \<open>toBackendEnum\<close> and of the routes holds whatever the
  mapping is.
\<close>

definition toBackendEnum :: "(string \<Rightarrow> string) \<Rightarrow> string \<Rightarrow> BackendType option" where
  "toBackendEnum toUpperCase t =
     (if toUpperCase t = ''STORAGE'' then Some STORAGE
      else if toUpperCase t = ''HOSTING'' then Some HOSTING
      else None)"

text \<open>
  On a string of ASCII characters \<open>toUpperCase\<close> replaces the letters \<open>a\<close> to \<open>z\<close> by
  \<open>A\<close> to \<open>Z\<close>. The concrete requests of this theory have ASCII types only.
\<close>

definition upper_char :: "char \<Rightarrow> char" where
  "upper_char c =
     (case map_of (zip ''abcdefghijklmnopqrstuvwxyz'' ''ABCDEFGHIJKLMNOPQRSTUVWXYZ'') c of
        None \<Rightarrow> c
      | Some u \<Rightarrow> u)"

definition asciiUpperCase :: "string \<Rightarrow> string" where
  "asciiUpperCase s = map upper_char s"

text \<open>The loop of \<open>getBackend\<close> over the backends, then \<open>backends[0]\<close>.\<close>

fun firstLoggedIn ::
  "'s option \<Rightarrow> ('s, 'u, 'm) Backend list \<Rightarrow> Error + ('s, 'u, 'm) Backend option" where
  "firstLoggedIn session [] = Inr None"
| "firstLoggedIn session (backend # rest) =
     (case isLoggedIn backend session of
        Inl e \<Rightarrow> Inl e
      | Inr True \<Rightarrow> Inr (Some backend)
      | Inr False \<Rightarrow> firstLoggedIn session rest)"

definition loggedInOrFirst ::
  "'s option \<Rightarrow> ('s, 'u, 'm) Backend list \<Rightarrow> Error + ('s, 'u, 'm) Backend option" where
  "loggedInOrFirst session backends =
     (case firstLoggedIn session backends of
        Inl e \<Rightarrow> Inl e
      | Inr (Some backend) \<Rightarrow> Inr (Some backend)
      | Inr None \<Rightarrow> Inr (case backends of [] \<Rightarrow> None | backend # _ \<Rightarrow> Some backend))"

text \<open>
  \<open>getBackend(config, session, type, backendId?)\<close>. The guard \<open>if (backendId)\<close> is a
  truthiness test: it fails for \<open>undefined\<close> and for the empty string.
\<close>

definition getBackend ::
  "('s, 'u, 'm) ServerConfig \<Rightarrow> 's option \<Rightarrow> BackendType option \<Rightarrow> string option
   \<Rightarrow> Error + ('s, 'u, 'm) Backend option" where
  "getBackend config session type backendId =
     (let backends = getBackends config type in
      case backendId of
        None \<Rightarrow> loggedInOrFirst session backends
      | Some i \<Rightarrow>
          if i \<noteq> []
          then Inr (find (\<lambda>s. backend_id s = i \<and> Some (backend_type s) = type) backends)
          else loggedInOrFirst session backends)"

text \<open>
  \<open>toBackendData(session, backend)\<close>. The object literal awaits \<open>isLoggedIn\<close> first and
  \<open>getAuthorizeURL\<close> second; \<open>!!backend.disableLogout\<close> is true only for \<open>true\<close>.
\<close>

definition toBackendData :: "'s option \<Rightarrow> ('s, 'u, 'm) Backend \<Rightarrow> Error + BackendData" where
  "toBackendData session backend =
     (case isLoggedIn backend session of
        Inl e \<Rightarrow> Inl e
      | Inr l \<Rightarrow>
          (case getAuthorizeURL backend session of
             Inl e \<Rightarrow> Inl e
           | Inr u \<Rightarrow>
               Inr \<lparr>bd_backendId = backend_id backend,
                    bd_type = backend_type backend,
                    bd_displayName = displayName backend,
                    bd_icon = icon backend,
                    bd_disableLogout = (disableLogout backend = Some True),
                    bd_isLoggedIn = l,
                    bd_authUrl = u\<rparr>))"

section \<open>The routes of the backends module\<close>

text \<open>
  Modelled from the spec: \<open>requiredParam\<close> (server/utils/validation) is not among the
  sources. The spec's error taxonomy has \<open>ValidationError\<close>, "missing/malformed required
  parameter -- always a client-caused 400": a missing value (\<open>undefined\<close>) is thrown as
  an error of code 400 whose message names the parameter.
\<close>

definition requiredParam :: "'a option \<Rightarrow> string \<Rightarrow> Error + 'a" where
  "requiredParam v name =
     (case v of
        None \<Rightarrow>
          Inl \<lparr>err_code = Some 400, err_message = ''Missing required parameter: '' @ name\<rparr>
      | Some x \<Rightarrow> Inr x)"

text \<open>
  The query types of types.ts. \<open>ApiBackendLoginStatusRequestQuery\<close> is read as declared
  (\<open>type: BackendType\<close>, passed on unconverted, \<open>None\<close> when the query has none); the
  other routes convert the raw string of their query with \<open>toBackendEnum\<close>. The
  \<open>options\<close> of \<open>ApiBackendLoginRequestQuery\<close> are not read by the route.
\<close>

record ApiBackendLoginStatusRequestQuery =
  ls_id :: "string option"
  ls_backendId :: "string option"
  ls_type :: "BackendType option"

record ApiBackendLogoutRequestQuery =
  lo_backendId :: "string option"
  lo_type :: "string option"

record ApiBackendListRequestQuery =
  li_type :: "string option"

record ApiBackendLoginRequestQuery =
  cb_backendId :: "string option"
  cb_type :: "string option"
  cb_error :: "string option"

text \<open>
  What a route reads of the express request: \<open>req.app.get('config')\<close>, \<open>req.query\<close>
  (express always provides the object) and \<open>req['session']\<close>.
\<close>

record ('q, 's, 'u, 'm) Request =
  req_config :: "('s, 'u, 'm) ServerConfig option"
  req_query :: 'q
  req_session :: "'s option"

text \<open>
  The value of \<open>websiteId && backend.type === BackendType.STORAGE && await getSiteMeta(..)\<close>:
  \<open>undefined\<close> or the empty string (a falsy \<open>websiteId\<close>), \<open>false\<close>, or the meta data.
\<close>

datatype 'm MetaValue = MetaUndefined | MetaEmptyString | MetaFalse | Meta 'm

fun truthy :: "'m MetaValue \<Rightarrow> bool" where
  "truthy (Meta m) = True"
| "truthy _ = False"

text \<open>
  The bodies: the JSON \<open>{error, message}\<close>, \<open>{backend, user, websiteMeta}\<close> and the list
  of backend descriptors, and the HTML page of \<open>sendHtml\<close>, which shows \<open>message\<close> and
  posts \<open>{type: 'login', error, message, backendId}\<close> to the opener. A response sent
  without \<open>res.status\<close> has status 200.
\<close>

datatype ('u, 'm) Body =
  ApiResponseError bool string
| ApiBackendLoginStatusResponse BackendData 'u "'m MetaValue"
| ApiBackendListResponse "BackendData list"
| ApiBackendLoggedInPostMessage bool string "string option"

record ('u, 'm) Response =
  res_status :: nat
  res_body :: "('u, 'm) Body"

text \<open>\<open>error?.code ?? d\<close>\<close>

definition codeOr :: "Error \<Rightarrow> nat \<Rightarrow> nat" where
  "codeOr e d = (case err_code e of None \<Rightarrow> d | Some c \<Rightarrow> c)"

definition websiteMetaOf ::
  "('s, 'u, 'm) Backend \<Rightarrow> 's option \<Rightarrow> string option \<Rightarrow> Error + 'm MetaValue" where
  "websiteMetaOf backend session websiteId =
     (case websiteId of
        None \<Rightarrow> Inr MetaUndefined
      | Some w \<Rightarrow>
          if w = [] then Inr MetaEmptyString
          else if backend_type backend \<noteq> STORAGE then Inr MetaFalse
          else (case getSiteMeta backend session w of
                  Inl e \<Rightarrow> Inl e
                | Inr m \<Rightarrow> Inr (Meta m)))"

text \<open>The body of the \<open>try\<close> of \<open>routeLoginStatus\<close>: the response sent, or the error thrown.\<close>

definition loginStatusTry ::
  "(ApiBackendLoginStatusRequestQuery, 's, 'u, 'm) Request \<Rightarrow> Error + ('u, 'm) Response" where
  "loginStatusTry req =
     (case requiredParam (req_config req) ''Config object on express js APP'' of
        Inl e \<Rightarrow> Inl e
      | Inr config \<Rightarrow>
     (case requiredParam (Some (req_query req)) ''Query object'' of
        Inl e \<Rightarrow> Inl e
      | Inr query \<Rightarrow>
     (case requiredParam (req_session req) ''Session object'' of
        Inl e \<Rightarrow> Inl e
      | Inr session \<Rightarrow>
     (case getBackend config (Some session) (ls_type query) (ls_backendId query) of
        Inl e \<Rightarrow> Inl e
      | Inr None \<Rightarrow>
          Inr \<lparr>res_status = 500, res_body = ApiResponseError True ''No backend found''\<rparr>
      | Inr (Some backend) \<Rightarrow>
     (case isLoggedIn backend (Some session) of
        Inl e \<Rightarrow> Inl e
      | Inr False \<Rightarrow>
          Inr \<lparr>res_status = 401, res_body = ApiResponseError True ''Not logged in''\<rparr>
      | Inr True \<Rightarrow>
     (case toBackendData (Some session) backend of
        Inl e \<Rightarrow> Inl e
      | Inr backendData \<Rightarrow>
     (case getUserData backend (Some session) of
        Inl e \<Rightarrow> Inl e
      | Inr user \<Rightarrow>
     (case websiteMetaOf backend (Some session) (ls_id query) of
        Inl e \<Rightarrow> Inl e
      | Inr websiteMeta \<Rightarrow>
          Inr \<lparr>res_status = 200,
               res_body = ApiBackendLoginStatusResponse backendData user websiteMeta\<rparr>))))))))"

definition routeLoginStatus ::
  "(ApiBackendLoginStatusRequestQuery, 's, 'u, 'm) Request \<Rightarrow> ('u, 'm) Response" where
  "routeLoginStatus req =
     (case loginStatusTry req of
        Inr res \<Rightarrow> res
      | Inl error \<Rightarrow>
          \<lparr>res_status = codeOr error 500,
           res_body = ApiResponseError True (err_message error)\<rparr>)"

text \<open>The text of a backend type in a template string.\<close>

fun typeText :: "BackendType option \<Rightarrow> string" where
  "typeText None = ''undefined''"
| "typeText (Some STORAGE) = ''STORAGE''"
| "typeText (Some HOSTING) = ''HOSTING''"

text \<open>
  The inner \<open>try\<close> of \<open>routeLogout\<close> (the logout itself, with its own \<open>catch\<close>) and the
  outer one (the request), whose \<open>catch\<close> defaults to 400.
\<close>

definition logoutInner :: "('s, 'u, 'm) Backend \<Rightarrow> 's option \<Rightarrow> ('u, 'm) Response" where
  "logoutInner backend session =
     (case logout backend session of
        Inr _ \<Rightarrow> \<lparr>res_status = 200, res_body = ApiResponseError False ''OK''\<rparr>
      | Inl error \<Rightarrow>
          \<lparr>res_status = codeOr error 500,
           res_body = ApiResponseError True (''Error while logging out: '' @ err_message error)\<rparr>)"

definition logoutTry ::
  "(string \<Rightarrow> string) \<Rightarrow> (ApiBackendLogoutRequestQuery, 's, 'u, 'm) Request
   \<Rightarrow> Error + ('u, 'm) Response" where
  "logoutTry toUpperCase req =
     (let query = req_query req in
      case requiredParam (lo_backendId query) ''Backend id'' of
        Inl e \<Rightarrow> Inl e
      | Inr backendId \<Rightarrow>
     (case requiredParam (req_config req) ''Config object on express js APP'' of
        Inl e \<Rightarrow> Inl e
      | Inr config \<Rightarrow>
     (case requiredParam (lo_type query) ''Backend type'' of
        Inl e \<Rightarrow> Inl e
      | Inr rawType \<Rightarrow>
     (let type = toBackendEnum toUpperCase rawType in
      case getBackend config (req_session req) type (Some backendId) of
        Inl e \<Rightarrow> Inl e
      | Inr None \<Rightarrow>
          Inl \<lparr>err_code = None,
               err_message = ''Backend not found '' @ backendId @ '' '' @ typeText type\<rparr>
      | Inr (Some backend) \<Rightarrow> Inr (logoutInner backend (req_session req))))))"

definition routeLogout ::
  "(string \<Rightarrow> string) \<Rightarrow> (ApiBackendLogoutRequestQuery, 's, 'u, 'm) Request
   \<Rightarrow> ('u, 'm) Response" where
  "routeLogout toUpperCase req =
     (case logoutTry toUpperCase req of
        Inr res \<Rightarrow> res
      | Inl error \<Rightarrow>
          \<lparr>res_status = codeOr error 400,
           res_body =
             ApiResponseError True (''Error in the logout request: '' @ err_message error)\<rparr>)"

text \<open>
  \<open>routeListBackends\<close>. The descriptors are built concurrently under \<open>Promise.all\<close>,
  which rejects with the rejection that comes first in time: when some descriptor is
  rejected, the inner \<open>catch\<close> answers for one of the rejections, and which one is not
  determined by the code. The route is therefore modelled by the list of the responses
  it can send: the one response with all the descriptors when all are obtained, one
  error response for each rejected descriptor otherwise.
\<close>

definition listInner :: "('s, 'u, 'm) Backend list \<Rightarrow> 's option \<Rightarrow> ('u, 'm) Response list" where
  "listInner backends session =
     (let results = map (toBackendData session) backends
      in if list_all (\<lambda>r. \<not> isl r) results
         then [\<lparr>res_status = 200,
                res_body = ApiBackendListResponse [d. Inr d \<leftarrow> results]\<rparr>]
         else [\<lparr>res_status = codeOr error 500,
                res_body = ApiResponseError True
                  (''Error while listing backends: '' @ err_message error)\<rparr>.
               Inl error \<leftarrow> results])"

definition listTry ::
  "(string \<Rightarrow> string) \<Rightarrow> (ApiBackendListRequestQuery, 's, 'u, 'm) Request
   \<Rightarrow> Error + ('u, 'm) Response list" where
  "listTry toUpperCase req =
     (case requiredParam (req_config req) ''Config object on express js APP'' of
        Inl e \<Rightarrow> Inl e
      | Inr config \<Rightarrow>
     (let query = req_query req in
      case requiredParam (li_type query) ''Backend type'' of
        Inl e \<Rightarrow> Inl e
      | Inr rawType \<Rightarrow>
     (let type = toBackendEnum toUpperCase rawType;
          backends = getBackends config type
      in Inr (listInner backends (req_session req)))))"

definition routeListBackends ::
  "(string \<Rightarrow> string) \<Rightarrow> (ApiBackendListRequestQuery, 's, 'u, 'm) Request
   \<Rightarrow> ('u, 'm) Response list" where
  "routeListBackends toUpperCase req =
     (case listTry toUpperCase req of
        Inr responses \<Rightarrow> responses
      | Inl error \<Rightarrow>
          [\<lparr>res_status = codeOr error 400,
            res_body =
              ApiResponseError True
                (''Error in the list backends request: '' @ err_message error)\<rparr>])"

text \<open>
  \<open>sendHtml(res, message, backendId?, error?, defaultErrorCode?)\<close>: the status is
  \<open>error ? error['code'] ?? defaultErrorCode ?? 500 : 200\<close>.
\<close>

definition sendHtml ::
  "string \<Rightarrow> string option \<Rightarrow> Error option \<Rightarrow> nat option \<Rightarrow> ('u, 'm) Response" where
  "sendHtml msg backendId error defaultErrorCode =
     \<lparr>res_status =
        (case error of
           None \<Rightarrow> 200
         | Some e \<Rightarrow>
             (case err_code e of
                Some c \<Rightarrow> c
              | None \<Rightarrow> (case defaultErrorCode of Some d \<Rightarrow> d | None \<Rightarrow> 500))),
      res_body = ApiBackendLoggedInPostMessage (error \<noteq> None) msg backendId\<rparr>"

text \<open>
  \<open>routeLoginSuccess\<close>, the redirect target after a login. \<open>if (query.error)\<close> is a
  truthiness test: it holds for a non-empty string. The inner \<open>try\<close> holds the one call
  \<open>sendHtml(res, 'Logged in', backendId)\<close>.
\<close>

definition loginSuccessTry ::
  "(string \<Rightarrow> string) \<Rightarrow> (ApiBackendLoginRequestQuery, 's, 'u, 'm) Request
   \<Rightarrow> Error + ('u, 'm) Response" where
  "loginSuccessTry toUpperCase req =
     (let query = req_query req in
      case (case cb_error query of
              None \<Rightarrow> Inr ()
            | Some e \<Rightarrow> if e \<noteq> [] then Inl \<lparr>err_code = None, err_message = e\<rparr> else Inr ()) of
        Inl e \<Rightarrow> Inl e
      | Inr _ \<Rightarrow>
     (case requiredParam (cb_backendId query) ''Backend id'' of
        Inl e \<Rightarrow> Inl e
      | Inr backendId \<Rightarrow>
     (case requiredParam (req_config req) ''Config object on express js APP'' of
        Inl e \<Rightarrow> Inl e
      | Inr config \<Rightarrow>
     (case requiredParam (cb_type query) ''Backend type'' of
        Inl e \<Rightarrow> Inl e
      | Inr rawType \<Rightarrow>
     (let type = toBackendEnum toUpperCase rawType in
      case getBackend config (req_session req) type (Some backendId) of
        Inl e \<Rightarrow> Inl e
      | Inr None \<Rightarrow>
          Inl \<lparr>err_code = None, err_message = ''Backend not found '' @ backendId\<rparr>
      | Inr (Some backend) \<Rightarrow> Inr (sendHtml ''Logged in'' (Some backendId) None None))))))"

definition routeLoginSuccess ::
  "(string \<Rightarrow> string) \<Rightarrow> (ApiBackendLoginRequestQuery, 's, 'u, 'm) Request
   \<Rightarrow> ('u, 'm) Response" where
  "routeLoginSuccess toUpperCase req =
     (case loginSuccessTry toUpperCase req of
        Inr res \<Rightarrow> res
      | Inl error \<Rightarrow>
          sendHtml (''Error in the request '' @ err_message error) None (Some error) (Some 400))"

text \<open>
  Concrete backends and requests: a storage backend \<open>a\<close> whose sessions are never logged
  in, a storage backend \<open>b\<close> and a hosting backend \<open>h\<close> that are logged in exactly for
  the session \<open>Some True\<close>, and a registry that lists them in the order \<open>a, b\<close> for
  storage.
\<close>

definition backendA :: "(bool, string, string) Backend" where
  "backendA =
     \<lparr>backend_id = ''a'', displayName = ''A'', icon = ''a.png'', disableLogout = None,
      backend_type = STORAGE,
      getAuthorizeURL = (\<lambda>s. Inr (Some ''/login/a'')),
      isLoggedIn = (\<lambda>s. Inr False),
      logout = (\<lambda>s. Inr ()),
      getUserData = (\<lambda>s. Inr ''nobody''),
      getSiteMeta = (\<lambda>s w. Inr (''meta of '' @ w))\<rparr>"

definition backendB :: "(bool, string, string) Backend" where
  "backendB =
     \<lparr>backend_id = ''b'', displayName = ''B'', icon = ''b.png'', disableLogout = Some True,
      backend_type = STORAGE,
      getAuthorizeURL = (\<lambda>s. Inr None),
      isLoggedIn = (\<lambda>s. Inr (s = Some True)),
      logout = (\<lambda>s. Inr ()),
      getUserData = (\<lambda>s. Inr ''bob''),
      getSiteMeta = (\<lambda>s w. Inr (''meta of '' @ w))\<rparr>"

definition backendH :: "(bool, string, string) Backend" where
  "backendH =
     \<lparr>backend_id = ''h'', displayName = ''H'', icon = ''h.png'', disableLogout = None,
      backend_type = HOSTING,
      getAuthorizeURL = (\<lambda>s. Inr None),
      isLoggedIn = (\<lambda>s. Inr (s = Some True)),
      logout = (\<lambda>s. Inr ()),
      getUserData = (\<lambda>s. Inr ''hal''),
      getSiteMeta = (\<lambda>s w. Inr (''meta of '' @ w))\<rparr>"

definition config0 :: "(bool, string, string) ServerConfig" where
  "config0 =
     \<lparr>getBackends =
        (\<lambda>t. if t = Some STORAGE then [backendA, backendB]
             else if t = Some HOSTING then [backendH]
             else [backendA, backendB, backendH])\<rparr>"

definition statusReq ::
  "bool \<Rightarrow> BackendType \<Rightarrow> string option \<Rightarrow> string option
   \<Rightarrow> (ApiBackendLoginStatusRequestQuery, bool, string, string) Request" where
  "statusReq session t backendId websiteId =
     \<lparr>req_config = Some config0,
      req_query = \<lparr>ls_id = websiteId, ls_backendId = backendId, ls_type = Some t\<rparr>,
      req_session = Some session\<rparr>"

definition logoutReq ::
  "string option \<Rightarrow> string option
   \<Rightarrow> (ApiBackendLogoutRequestQuery, bool, string, string) Request" where
  "logoutReq backendId t =
     \<lparr>req_config = Some config0,
      req_query = \<lparr>lo_backendId = backendId, lo_type = t\<rparr>,
      req_session = None\<rparr>"

text \<open>
  More requests: a login-status request without \<open>type\<close>, a list request and a
  login-callback request. A backend whose \<open>isLoggedIn\<close> rejects with an error that has
  neither code nor message text, a registry of that backend alone, and a registry
  without backends.
\<close>

definition untypedStatusReq ::
  "string option \<Rightarrow> (ApiBackendLoginStatusRequestQuery, bool, string, string) Request" where
  "untypedStatusReq backendId =
     \<lparr>req_config = Some config0,
      req_query = \<lparr>ls_id = None, ls_backendId = backendId, ls_type = None\<rparr>,
      req_session = Some True\<rparr>"

definition listReq ::
  "(bool, string, string) ServerConfig \<Rightarrow> string option
   \<Rightarrow> (ApiBackendListRequestQuery, bool, string, string) Request" where
  "listReq config t =
     \<lparr>req_config = Some config, req_query = \<lparr>li_type = t\<rparr>, req_session = Some True\<rparr>"

definition callbackReq ::
  "string option \<Rightarrow> string option \<Rightarrow> string option
   \<Rightarrow> (ApiBackendLoginRequestQuery, bool, string, string) Request" where
  "callbackReq error backendId t =
     \<lparr>req_config = Some config0,
      req_query = \<lparr>cb_backendId = backendId, cb_type = t, cb_error = error\<rparr>,
      req_session = None\<rparr>"

definition backendE :: "(bool, string, string) Backend" where
  "backendE =
     \<lparr>backend_id = ''e'', displayName = ''E'', icon = ''e.png'', disableLogout = None,
      backend_type = STORAGE,
      getAuthorizeURL = (\<lambda>s. Inr None),
      isLoggedIn = (\<lambda>s. Inl \<lparr>err_code = None, err_message = []\<rparr>),
      logout = (\<lambda>s. Inr ()),
      getUserData = (\<lambda>s. Inr ''eve''),
      getSiteMeta = (\<lambda>s w. Inr (''meta of '' @ w))\<rparr>"

definition configE :: "(bool, string, string) ServerConfig" where
  "configE = \<lparr>getBackends = (\<lambda>t. [backendE])\<rparr>"

definition emptyConfig :: "(bool, string, string) ServerConfig" where
  "emptyConfig = \<lparr>getBackends = (\<lambda>t. [])\<rparr>"

definition statusReqE ::
  "(ApiBackendLoginStatusRequestQuery, bool, string, string) Request" where
  "statusReqE =
     \<lparr>req_config = Some configE,
      req_query = \<lparr>ls_id = None, ls_backendId = None, ls_type = Some STORAGE\<rparr>,
      req_session = Some True\<rparr>"

text \<open>What \<open>toBackendData\<close> answers for \<open>b\<close> and \<open>h\<close> on the logged-in session.\<close>

definition dataB :: BackendData where
  "dataB =
     \<lparr>bd_backendId = ''b'', bd_type = STORAGE, bd_displayName = ''B'', bd_icon = ''b.png'',
      bd_disableLogout = True, bd_isLoggedIn = True, bd_authUrl = None\<rparr>"

definition dataH :: BackendData where
  "dataH =
     \<lparr>bd_backendId = ''h'', bd_type = HOSTING, bd_displayName = ''H'', bd_icon = ''h.png'',
      bd_disableLogout = False, bd_isLoggedIn = True, bd_authUrl = None\<rparr>"

section \<open>The entity store\<close>

text \<open>
  The options \<open>store.ts\<close> passes to \<open>withCrud\<close> for the two collections (\<open>actionEnum\<close> and
  \<open>reducer\<close> name modules that are not among the sources and are left out).
\<close>

record CrudOptions =
  label :: string
  allowSetId :: bool

definition pagesOptions :: CrudOptions where
  "pagesOptions = \<lparr>label = ''Pages'', allowSetId = True\<rparr>"

definition elementsOptions :: CrudOptions where
  "elementsOptions = \<lparr>label = ''Elements'', allowSetId = False\<rparr>"

text \<open>
  Modelled from the spec: the entity types and the store's errors are not among the
  sources. An entity is "any record with a unique string identifier": its id and its
  other fields; the store-level errors are \<open>DuplicateIdError\<close> and \<open>NotFoundError\<close>,
  the latter also being what a query for an unknown or evicted job id fails with.
\<close>

datatype StoreError = DuplicateIdError | NotFoundError

record 'a Entity =
  ent_id :: string
  ent_fields :: 'a

text \<open>
  Modelled from the spec: the id generator of the entity store is not among the sources.
  The spec asks for "a fresh unique id"; this one is longer than every id in use.
\<close>

definition freshId :: "string list \<Rightarrow> string" where
  "freshId ids = replicate (Suc (foldr max (map length ids) 0)) (CHR ''x'')"

text \<open>
  Modelled from the spec: \<open>withCrud\<close> (client/flux/crud-store) is not among the sources.
  The spec's contract is \<open>create(entity, allowCallerSuppliedId)\<close>: "if
  \<open>allowCallerSuppliedId\<close> is false, any caller-supplied id is ignored and a fresh
  unique id is generated; if true and the id is already present, fails with
  \<open>DuplicateIdError\<close>. Appends to the end of the ordered sequence. Returns the stored
  entity (with final id)." The entity to create is its optional id and its other fields;
  the result is the stored entity and the new sequence.
\<close>

definition create ::
  "string option \<Rightarrow> 'a \<Rightarrow> bool \<Rightarrow> 'a Entity list
   \<Rightarrow> StoreError + 'a Entity \<times> 'a Entity list" where
  "create suppliedId payload allowCallerSuppliedId coll =
     (let ids = map ent_id coll;
          generated = \<lparr>ent_id = freshId ids, ent_fields = payload\<rparr>
      in if allowCallerSuppliedId
         then (case suppliedId of
                 None \<Rightarrow> Inr (generated, coll @ [generated])
               | Some i \<Rightarrow>
                   if i \<in> set ids then Inl DuplicateIdError
                   else Inr (\<lparr>ent_id = i, ent_fields = payload\<rparr>,
                             coll @ [\<lparr>ent_id = i, ent_fields = payload\<rparr>]))
         else Inr (generated, coll @ [generated]))"

text \<open>
  Modelled from the spec: \<open>create\<close> on a collection configured by its \<open>withCrud\<close>
  options; the spec reads \<open>allowSetId\<close> as the per-collection "allow caller-supplied id"
  flag.
\<close>

definition createIn ::
  "CrudOptions \<Rightarrow> string option \<Rightarrow> 'a \<Rightarrow> 'a Entity list
   \<Rightarrow> StoreError + 'a Entity \<times> 'a Entity list" where
  "createIn options suppliedId payload coll =
     create suppliedId payload (allowSetId options) coll"

section \<open>Publication jobs (types.ts)\<close>

datatype JobStatus = IN_PROGRESS | SUCCESS | ERROR

text \<open>
  \<open>JobData\<close> and \<open>PublicationJobData\<close>. The internal field \<open>_timeout\<close> is the handle of
  the job's expiry timer, modelled by the time at which the timer fires.
\<close>

record JobData =
  jobId :: string
  status :: JobStatus
  message :: string
  url :: "string option"
  timeout :: "nat option"

record PublicationJobData = JobData +
  logs :: "string list list"
  errors :: "string list list"

text \<open>
  Modelled from the spec: the publication orchestrator, its job table and the polling
  endpoint are not among the sources. The spec's job state machine (section 4.4):
  a publish request allocates a fresh job id and sets the status to \<open>IN_PROGRESS\<close>; the
  pipeline writes the files through the storage backend, then publishes through the
  hosting backend, each appending progress to \<open>logs\<close>; a step failure appends to
  \<open>errors\<close> and moves the job to \<open>ERROR\<close> with a message, with no retry; full success
  sets \<open>SUCCESS\<close>, the message and the url; \<open>SUCCESS\<close> and \<open>ERROR\<close> are terminal. A job
  carries an expiry deadline set at creation and is evicted at the deadline whatever its
  status. Logs and errors are grouped by step: each list has one group per step started.
  A job of the table is its data and the step its pipeline is at.
\<close>

datatype PipelineStep = WriteStep | PublishStep

record Job =
  job_data :: PublicationJobData
  job_step :: PipelineStep

text \<open>
  Modelled from the spec: the orchestrator's state is the job table keyed by job id, the
  clock, the number of job ids allocated and the retention time of a job (\<open>ttl\<close>).
\<close>

record Orchestrator =
  jobs :: "string \<rightharpoonup> Job"
  now :: nat
  nextJob :: nat
  ttl :: nat

definition newOrchestrator :: "nat \<Rightarrow> nat \<Rightarrow> Orchestrator" where
  "newOrchestrator start retention =
     \<lparr>jobs = Map.empty, now = start, nextJob = 0, ttl = retention\<rparr>"

text \<open>
  Modelled from the spec: "allocate a fresh jobId". The \<open>n\<close>-th id allocated; distinct
  numbers give distinct ids.
\<close>

definition jobIdOf :: "nat \<Rightarrow> string" where
  "jobIdOf n = replicate (Suc n) (CHR ''j'')"

text \<open>
  Modelled from the spec: what happens to the job table. A publish request is accepted;
  a running step reports progress (log lines and error lines, through the status
  callback); the write step ends well; the publish step ends well with the url; the
  running step fails with an error line; a client polls; time passes and the sweep
  evicts the jobs whose deadline has come.
\<close>

datatype Event =
  PublishRequest string
| Progress string "string list" "string list"
| WriteDone string
| Published string string string
| StepFailed string string string
| Poll string
| Elapse nat

text \<open>Modelled from the spec: lines are appended to the group of the running step.\<close>

definition appendLast :: "'a list \<Rightarrow> 'a list list \<Rightarrow> 'a list list" where
  "appendLast xs groups =
     (case rev groups of [] \<Rightarrow> [xs] | g # before \<Rightarrow> rev before @ [g @ xs])"

text \<open>
  Modelled from the spec: a new job is \<open>IN_PROGRESS\<close> at its write step, with the
  expiry deadline it is given.
\<close>

definition newJob :: "string \<Rightarrow> string \<Rightarrow> nat \<Rightarrow> Job" where
  "newJob jid msg deadline =
     \<lparr>job_data =
        \<lparr>jobId = jid, status = IN_PROGRESS, message = msg, url = None,
         timeout = Some deadline, logs = [[]], errors = [[]]\<rparr>,
      job_step = WriteStep\<rparr>"

text \<open>
  Modelled from the spec: a job is "mutated only by the orchestrator driving that job",
  and only while it is in progress: \<open>SUCCESS\<close> and \<open>ERROR\<close> are terminal.
\<close>

definition updateJob :: "string \<Rightarrow> (Job \<Rightarrow> Job) \<Rightarrow> Orchestrator \<Rightarrow> Orchestrator" where
  "updateJob jid f orch =
     (case jobs orch jid of
        None \<Rightarrow> orch
      | Some j \<Rightarrow>
          if status (job_data j) = IN_PROGRESS
          then orch\<lparr>jobs := (jobs orch)(jid \<mapsto> f j)\<rparr>
          else orch)"

text \<open>Modelled from the spec: a job has expired at time \<open>t\<close> when its deadline has come.\<close>

definition expired :: "nat \<Rightarrow> Job \<Rightarrow> bool" where
  "expired t j = (case timeout (job_data j) of None \<Rightarrow> False | Some d \<Rightarrow> d \<le> t)"

text \<open>
  Modelled from the spec: the transitions of section 4.4. The argument of
  \<open>PublishRequest\<close> is the first message of the job; its deadline is the current time
  plus the retention time.
\<close>

fun step :: "Event \<Rightarrow> Orchestrator \<Rightarrow> Orchestrator" where
  "step (PublishRequest msg) orch =
     orch\<lparr>jobs := (jobs orch)(jobIdOf (nextJob orch) \<mapsto>
                     newJob (jobIdOf (nextJob orch)) msg (now orch + ttl orch)),
          nextJob := Suc (nextJob orch)\<rparr>"
| "step (Progress jid logLines errorLines) orch =
     updateJob jid
       (\<lambda>j. j\<lparr>job_data := (job_data j)\<lparr>logs := appendLast logLines (logs (job_data j)),
                                           errors := appendLast errorLines (errors (job_data j))\<rparr>\<rparr>)
       orch"
| "step (WriteDone jid) orch =
     updateJob jid
       (\<lambda>j. if job_step j = WriteStep
             then j\<lparr>job_data := (job_data j)\<lparr>logs := logs (job_data j) @ [[]],
                                                 errors := errors (job_data j) @ [[]]\<rparr>,
                    job_step := PublishStep\<rparr>
             else j)
       orch"
| "step (Published jid u msg) orch =
     updateJob jid
       (\<lambda>j. if job_step j = PublishStep
             then j\<lparr>job_data := (job_data j)\<lparr>status := SUCCESS, message := msg, url := Some u\<rparr>\<rparr>
             else j)
       orch"
| "step (StepFailed jid errorLine msg) orch =
     updateJob jid
       (\<lambda>j. j\<lparr>job_data := (job_data j)\<lparr>status := ERROR, message := msg,
                                           errors := appendLast [errorLine] (errors (job_data j))\<rparr>\<rparr>)
       orch"
| "step (Poll jid) orch = orch"
| "step (Elapse n) orch =
     orch\<lparr>now := now orch + n,
          jobs := (\<lambda>jid. case jobs orch jid of
                            None \<Rightarrow> None
                          | Some j \<Rightarrow> if expired (now orch + n) j then None else Some j)\<rparr>"

definition run :: "Event list \<Rightarrow> Orchestrator \<Rightarrow> Orchestrator" where
  "run es orch = fold step es orch"

text \<open>
  Modelled from the spec: the polling endpoint, "a pure read of job-table state". The
  answer has the spec's shape \<open>{jobId, status, message, url?, logs, errors}\<close>: the job's
  \<open>PublicationJobData\<close> without the internal timer. An unknown or evicted id fails with
  \<open>NotFoundError\<close>.
\<close>

definition poll :: "string \<Rightarrow> Orchestrator \<Rightarrow> StoreError + PublicationJobData" where
  "poll jid orch =
     (case jobs orch jid of
        None \<Rightarrow> Inl NotFoundError
      | Some j \<Rightarrow> Inr ((job_data j)\<lparr>timeout := None\<rparr>))"

text \<open>
  What holds of every job in the table of an orchestrator that started empty: it is
  filed under its own id, the id has been allocated, its deadline has not come, its logs
  and errors have one group per step started, and a successful job has gone through the
  publish step and has its url.
\<close>

definition job_ok :: "Orchestrator \<Rightarrow> string \<Rightarrow> Job \<Rightarrow> bool" where
  "job_ok orch jid j =
     (jobId (job_data j) = jid
      \<and> (\<exists>k<nextJob orch. jid = jobIdOf k)
      \<and> (\<exists>d. timeout (job_data j) = Some d \<and> now orch \<le> d \<and> (0 < ttl orch \<longrightarrow> now orch < d))
      \<and> length (logs (job_data j)) = length (errors (job_data j))
      \<and> length (logs (job_data j)) = (case job_step j of WriteStep \<Rightarrow> 1 | PublishStep \<Rightarrow> 2)
      \<and> (status (job_data j) = SUCCESS \<longrightarrow> job_step j = PublishStep \<and> url (job_data j) \<noteq> None))"

definition orch_inv :: "Orchestrator \<Rightarrow> bool" where
  "orch_inv orch = (\<forall>jid j. jobs orch jid = Some j \<longrightarrow> job_ok orch jid j)"

definition issued :: "string \<Rightarrow> Orchestrator \<Rightarrow> bool" where
  "issued jid orch = (\<exists>k<nextJob orch. jid = jobIdOf k)"

text \<open>
  Concrete runs: a publication that succeeds, and the answers to a poll of the first job
  while its write step runs and after that step has failed.
\<close>

definition events0 :: "Event list" where
  "events0 =
     [PublishRequest ''go'', Progress ''j'' [''index.html''] [], WriteDone ''j'',
      Published ''j'' ''https://site'' ''done'']"

definition runningJob :: PublicationJobData where
  "runningJob =
     \<lparr>jobId = ''j'', status = IN_PROGRESS, message = ''go'', url = None, timeout = None,
      logs = [[]], errors = [[]]\<rparr>"

definition failedJob :: PublicationJobData where
  "failedJob =
     \<lparr>jobId = ''j'', status = ERROR, message = ''write failed'', url = None, timeout = None,
      logs = [[]], errors = [[''disk full'']]\<rparr>"

section \<open>Properties of the document store\<close>

lemma fold_subscribers:
  "Tracker \<notin> set ls \<Longrightarrow>
   fold run_listener ls (st, out) = (st, out @ concat (map (emitted st) ls))"
proof (induction ls arbitrary: out)
  case Nil
  then show ?case by simp
next
  case (Cons l ls)
  then obtain k name where l: "l = Subscriber k name" by (cases l) auto
  from Cons.prems have "Tracker \<notin> set ls" by simp
  from Cons.IH [OF this] show ?case
    by (simp add: l split: option.split)
qed

lemma dispatch_eq:
  assumes "listeners st = Tracker # ls" and "Tracker \<notin> set ls"
  shows "dispatch reducer action st =
     (tracked (reducer (currentState st) action) st,
      concat (map (emitted (tracked (reducer (currentState st) action) st)) ls))"
  using assms by (simp add: dispatch_def Let_def fold_subscribers tracked_def)

lemma emitted_other:
  "k \<notin> set (sub_handles ls) \<Longrightarrow>
   filter (\<lambda>c. call_sub c = k) (concat (map (emitted st) ls)) = []"
  by (induction ls rule: sub_handles.induct) (auto split: option.split)

lemma sub_handles_mem: "Subscriber k name \<in> set ls \<Longrightarrow> k \<in> set (sub_handles ls)"
  by (induction ls rule: sub_handles.induct) auto

lemma emitted_own:
  "filter (\<lambda>c. call_sub c = k) (emitted st (Subscriber k name)) = emitted st (Subscriber k name)"
  by (simp split: option.split)

lemma emitted_one:
  "distinct (sub_handles ls) \<Longrightarrow> Subscriber k name \<in> set ls \<Longrightarrow>
   filter (\<lambda>c. call_sub c = k) (concat (map (emitted st) ls)) = emitted st (Subscriber k name)"
proof (induction ls rule: sub_handles.induct)
  case 1
  then show ?case by simp
next
  case (2 ls)
  then show ?case by simp
next
  case (3 j nm ls)
  show ?case
  proof (cases "j = k")
    case True
    with 3 have fresh: "k \<notin> set (sub_handles ls)" by simp
    then have rest: "filter (\<lambda>c. call_sub c = k) (concat (map (emitted st) ls)) = []"
      by (rule emitted_other)
    from fresh have "Subscriber k name \<notin> set ls" using sub_handles_mem by blast
    with 3 True have "nm = name" by simp
    with True rest show ?thesis using emitted_own [of k st name] by simp
  next
    case False
    with 3 show ?thesis by (auto split: option.split)
  qed
qed

text \<open>The invariant holds when the module is loaded and every operation keeps it.\<close>

lemma store_inv_createStore: "store_inv (createStore init)"
  by (simp add: store_inv_def createStore_def)

lemma sub_handles_append: "sub_handles (xs @ ys) = sub_handles xs @ sub_handles ys"
  by (induction xs rule: sub_handles.induct) auto

lemma store_inv_subscribeToCrud: "store_inv st \<Longrightarrow> store_inv (snd (subscribeToCrud name st))"
  by (auto simp: store_inv_def subscribeToCrud_def sub_handles_append list_all_iff
           split: list.splits listener.splits)

lemma store_inv_subscribeTo: "store_inv st \<Longrightarrow> store_inv (snd (subscribeTo name st))"
  by (auto simp: store_inv_def subscribeTo_def sub_handles_append list_all_iff
           split: list.splits listener.splits)

lemma sub_handles_filter:
  "sub_handles (filter (\<lambda>l. \<not> is_sub k l) ls) = filter (\<lambda>j. j \<noteq> k) (sub_handles ls)"
  by (induction ls rule: sub_handles.induct) auto

lemma store_inv_unsubscribe: "store_inv st \<Longrightarrow> store_inv (unsubscribe k st)"
  by (auto simp: store_inv_def unsubscribe_def sub_handles_filter list_all_iff
           split: list.splits listener.splits)

lemma store_inv_dispatch: "store_inv st \<Longrightarrow> store_inv (fst (dispatch reducer action st))"
  by (auto simp: store_inv_def dispatch_eq tracked_def split: list.splits listener.splits)

text \<open>After any dispatch \<open>curState\<close> is defined: only the first dispatch finds it undefined.\<close>

lemma dispatch_curState:
  "store_inv st \<Longrightarrow>
   curState (fst (dispatch reducer action st)) = Some (reducer (currentState st) action)"
  by (auto simp: store_inv_def dispatch_eq tracked_def split: list.splits listener.splits)

lemmas store_ex =
  store0_def state0_def createStore_def subscribeToCrud_def dispatch_def slice_def
  store_inv_def store1_def

text \<open>
  Claim C1, as stated: a dispatch that leaves the slice of collection A untouched never
  invokes the callback of a subscriber on A. It fails on the first dispatch after the
  module is loaded: \<open>prevState\<close> is still undefined there, the guard \<open>!prevState\<close>
  lets every subscriber through, and the subscriber on \<open>pages\<close> is called with
  \<open>(null, pages)\<close> although only \<open>elements\<close> changed.
\<close>

theorem first_dispatch_notifies_other_slice:
  "Subscriber 0 ''pages'' \<in> set (listeners store0)
   \<and> slice ''pages'' (reducer0 (currentState store0) (Inr 7)) = slice ''pages'' (currentState store0)
   \<and> snd (dispatch reducer0 (Inr 7) store0) =
       [\<lparr>call_sub = 0, call_prev = Null, call_next = Obj 0\<rparr>]"
  by (simp add: store_ex)

text \<open>
  Claim C1, amended: once a dispatch has been processed (\<open>curState\<close> is defined), a
  dispatch whose new state keeps the reference of slice A invokes no callback of a
  subscriber registered on A by \<open>subscribeToCrud\<close> or \<open>subscribeTo\<close>.
\<close>

theorem subscriber_silent_on_other_slice:
  assumes "store_inv st" and "curState st \<noteq> None"
    and "Subscriber k A \<in> set (listeners st)"
    and "slice A (reducer (currentState st) action) = slice A (currentState st)"
  shows "filter (\<lambda>c. call_sub c = k) (snd (dispatch reducer action st)) = []"
proof -
  from assms(1) obtain ls where ls: "listeners st = Tracker # ls" "Tracker \<notin> set ls"
    "distinct (sub_handles ls)"
    by (auto simp: store_inv_def split: list.splits listener.splits)
  from assms(1,2) have cur: "curState st = Some (currentState st)"
    by (auto simp: store_inv_def)
  from assms(3) ls have mem: "Subscriber k A \<in> set ls" by simp
  show ?thesis
    using emitted_one [OF ls(3) mem] assms(4) cur
    by (simp add: dispatch_eq [OF ls(1,2)] tracked_def)
qed

theorem subscriber_silent_on_other_slice_witness:
  "store_inv store1 \<and> curState store1 \<noteq> None
   \<and> Subscriber 0 ''pages'' \<in> set (listeners store1)
   \<and> slice ''pages'' (reducer0 (currentState store1) (Inr 8)) = slice ''pages'' (currentState store1)
   \<and> filter (\<lambda>c. call_sub c = 0) (snd (dispatch reducer0 (Inr 8) store1)) = []"
proof -
  have 1: "store_inv store1" by (simp add: store_ex)
  have 2: "curState store1 \<noteq> None" by (simp add: store_ex)
  have 3: "Subscriber 0 ''pages'' \<in> set (listeners store1)" by (simp add: store_ex)
  have 4: "slice ''pages'' (reducer0 (currentState store1) (Inr 8)) =
      slice ''pages'' (currentState store1)"
    by (simp add: store_ex)
  from subscriber_silent_on_other_slice
    [where st = store1 and k = 0 and A = "''pages''" and reducer = reducer0 and action = "Inr 8"]
    1 2 3 4
  show ?thesis by simp
qed

text \<open>
  Claim C2, as stated: a dispatch that changes the slice of A invokes the callback once
  with \<open>prev\<close> the snapshot of the slice before the mutation. It fails on the first
  dispatch: the slice before the mutation is the snapshot \<open>Obj 0\<close>, but the callback
  receives \<open>null\<close> as \<open>prev\<close>.
\<close>

theorem first_dispatch_prev_is_null:
  "Subscriber 0 ''pages'' \<in> set (listeners store0)
   \<and> slice ''pages'' (currentState store0) = Obj 0
   \<and> slice ''pages'' (reducer0 (currentState store0) (Inl 7)) = Obj 7
   \<and> snd (dispatch reducer0 (Inl 7) store0) =
       [\<lparr>call_sub = 0, call_prev = Null, call_next = Obj 7\<rparr>]"
  by (simp add: store_ex)

text \<open>
  Claim C2, amended: a dispatch whose new state changes the reference of slice A invokes
  the callback of every subscriber on A exactly once, with \<open>next\<close> the new slice and
  \<open>prev !== next\<close>; \<open>prev\<close> is the slice as it was immediately before the mutation on
  every dispatch but the first after loading, where it is \<open>null\<close>.
\<close>

theorem subscriber_called_once:
  assumes "store_inv st"
    and "Subscriber k A \<in> set (listeners st)"
    and "slice A (reducer (currentState st) action) \<noteq> slice A (currentState st)"
  shows "filter (\<lambda>c. call_sub c = k) (snd (dispatch reducer action st)) =
      [\<lparr>call_sub = k,
        call_prev = (if curState st = None then Null else slice A (currentState st)),
        call_next = slice A (reducer (currentState st) action)\<rparr>]
    \<and> (if curState st = None then Null else slice A (currentState st)) \<noteq>
        slice A (reducer (currentState st) action)"
proof -
  from assms(1) obtain ls where ls: "listeners st = Tracker # ls" "Tracker \<notin> set ls"
    "distinct (sub_handles ls)"
    by (auto simp: store_inv_def split: list.splits listener.splits)
  from assms(1) have cur: "curState st = None \<or> curState st = Some (currentState st)"
    by (auto simp: store_inv_def)
  from assms(2) ls have mem: "Subscriber k A \<in> set ls" by simp
  have "Null \<noteq> slice A s" for s by (simp add: slice_def)
  then show ?thesis
    using emitted_one [OF ls(3) mem] assms(3) cur
    by (auto simp add: dispatch_eq [OF ls(1,2)] tracked_def)
qed

theorem subscriber_called_once_witness:
  "store_inv store1 \<and> Subscriber 0 ''pages'' \<in> set (listeners store1)
   \<and> slice ''pages'' (reducer0 (currentState store1) (Inl 9)) \<noteq> slice ''pages'' (currentState store1)
   \<and> filter (\<lambda>c. call_sub c = 0) (snd (dispatch reducer0 (Inl 9) store1)) =
       [\<lparr>call_sub = 0, call_prev = Obj 0, call_next = Obj 9\<rparr>]"
proof -
  have 1: "store_inv store1" by (simp add: store_ex)
  have 3: "Subscriber 0 ''pages'' \<in> set (listeners store1)" by (simp add: store_ex)
  have 4: "slice ''pages'' (reducer0 (currentState store1) (Inl 9)) \<noteq>
      slice ''pages'' (currentState store1)"
    by (simp add: store_ex)
  have 5: "curState store1 \<noteq> None" "slice ''pages'' (currentState store1) = Obj 0"
    "slice ''pages'' (reducer0 (currentState store1) (Inl 9)) = Obj 9"
    by (simp_all add: store_ex)
  from subscriber_called_once
    [where st = store1 and k = 0 and A = "''pages''" and reducer = reducer0 and action = "Inl 9"]
    1 3 4 5
  show ?thesis by simp
qed

section \<open>Properties of the backend registry\<close>

lemmas backend_ex = config0_def backendA_def backendB_def backendH_def

lemma firstLoggedIn_found:
  "\<forall>x\<in>set pre. isLoggedIn x s = Inr False \<Longrightarrow> isLoggedIn b s = Inr True \<Longrightarrow>
   firstLoggedIn s (pre @ b # post) = Inr (Some b)"
  by (induction pre) auto

lemma firstLoggedIn_none:
  "\<forall>x\<in>set bs. isLoggedIn x s = Inr False \<Longrightarrow> firstLoggedIn s bs = Inr None"
  by (induction bs) auto

text \<open>A rejected \<open>isLoggedIn\<close> ends the loop: the rejection is the result of \<open>getBackend\<close>.\<close>

lemma firstLoggedIn_rejects:
  "\<forall>x\<in>set pre. isLoggedIn x s = Inr False \<Longrightarrow> isLoggedIn b s = Inl e \<Longrightarrow>
   firstLoggedIn s (pre @ b # post) = Inl e"
  by (induction pre) auto

text \<open>
  Claim C3, as stated: a given \<open>explicitId\<close> is resolved by id only, never by the later
  tiers. It fails for the empty string: \<open>if (backendId)\<close> is false for it, no backend
  has the id \<open>""\<close>, and the first registered backend is returned instead of not-found.
\<close>

theorem empty_id_falls_through:
  "getBackend config0 None (Some STORAGE) (Some '''') = Inr (Some backendA)
   \<and> find (\<lambda>b. backend_id b = '''' \<and> Some (backend_type b) = Some STORAGE)
        (getBackends config0 (Some STORAGE)) = None"
  by (simp add: getBackend_def loggedInOrFirst_def backend_ex)

text \<open>
  Claim C3, amended: (1) for a non-empty \<open>explicitId\<close>, \<open>getBackend\<close> returns the first
  backend of the type's list whose id is \<open>explicitId\<close> and whose type matches, and
  not-found if there is none; the session is not consulted and the later tiers are not
  tried. (2) For an absent or empty \<open>explicitId\<close> it returns the first backend of the
  list whose \<open>isLoggedIn(session)\<close> resolves to true (those before it resolving to
  false). (3) When \<open>isLoggedIn\<close> resolves to false for all of them it returns the first
  backend of the list (not-found for an empty list).
\<close>

theorem getBackend_tiers:
  "(i \<noteq> [] \<longrightarrow>
      getBackend c s t (Some i) =
        Inr (find (\<lambda>b. backend_id b = i \<and> Some (backend_type b) = t) (getBackends c t)))
   \<and> ((eid = None \<or> eid = Some []) \<and> getBackends c t = pre @ b # post
        \<and> (\<forall>x\<in>set pre. isLoggedIn x s = Inr False) \<and> isLoggedIn b s = Inr True \<longrightarrow>
      getBackend c s t eid = Inr (Some b))
   \<and> ((eid = None \<or> eid = Some [])
        \<and> (\<forall>x\<in>set (getBackends c t). isLoggedIn x s = Inr False) \<longrightarrow>
      getBackend c s t eid = Inr (case getBackends c t of [] \<Rightarrow> None | b # _ \<Rightarrow> Some b))"
proof (intro conjI impI)
  assume "i \<noteq> []"
  then show "getBackend c s t (Some i) =
        Inr (find (\<lambda>b. backend_id b = i \<and> Some (backend_type b) = t) (getBackends c t))"
    by (simp add: getBackend_def)
next
  assume h: "(eid = None \<or> eid = Some []) \<and> getBackends c t = pre @ b # post
        \<and> (\<forall>x\<in>set pre. isLoggedIn x s = Inr False) \<and> isLoggedIn b s = Inr True"
  then have "firstLoggedIn s (getBackends c t) = Inr (Some b)"
    using firstLoggedIn_found [of pre s b post] by simp
  with h show "getBackend c s t eid = Inr (Some b)"
    by (auto simp: getBackend_def loggedInOrFirst_def)
next
  assume h: "(eid = None \<or> eid = Some [])
        \<and> (\<forall>x\<in>set (getBackends c t). isLoggedIn x s = Inr False)"
  then have "firstLoggedIn s (getBackends c t) = Inr None"
    using firstLoggedIn_none by blast
  with h show "getBackend c s t eid =
      Inr (case getBackends c t of [] \<Rightarrow> None | b # _ \<Rightarrow> Some b)"
    by (auto simp: getBackend_def loggedInOrFirst_def)
qed

theorem getBackend_tiers_witness:
  "getBackend config0 None (Some STORAGE) (Some ''b'') = Inr (Some backendB)
   \<and> isLoggedIn backendB None = Inr False
   \<and> getBackend config0 None (Some STORAGE) (Some ''zzz'') = Inr None
   \<and> getBackends config0 (Some STORAGE) = [backendA] @ backendB # []
   \<and> isLoggedIn backendA (Some True) = Inr False \<and> isLoggedIn backendB (Some True) = Inr True
   \<and> getBackend config0 (Some True) (Some STORAGE) None = Inr (Some backendB)
   \<and> isLoggedIn backendA None = Inr False
   \<and> getBackend config0 None (Some STORAGE) None = Inr (Some backendA)"
proof -
  have bs: "getBackends config0 (Some STORAGE) = [backendA] @ backendB # []"
    by (simp add: config0_def)
  have a: "isLoggedIn backendA s = Inr False" for s by (simp add: backendA_def)
  have b1: "isLoggedIn backendB (Some True) = Inr True" by (simp add: backendB_def)
  have b0: "isLoggedIn backendB None = Inr False" by (simp add: backendB_def)
  have idb: "backend_id backendB = ''b''" "backend_id backendA = ''a''"
     "backend_type backendB = STORAGE" "backend_type backendA = STORAGE"
    by (simp_all add: backendA_def backendB_def)
  note t = getBackend_tiers [where c = config0 and t = "Some STORAGE"]
  from t [where i = "''b''" and s = None]
  have 1: "getBackend config0 None (Some STORAGE) (Some ''b'') = Inr (Some backendB)"
    by (simp add: bs idb)
  from t [where i = "''zzz''" and s = None]
  have 2: "getBackend config0 None (Some STORAGE) (Some ''zzz'') = Inr None"
    by (simp add: bs idb)
  from t [where eid = None and pre = "[backendA]" and b = backendB and post = "[]"
      and s = "Some True"]
  have 3: "getBackend config0 (Some True) (Some STORAGE) None = Inr (Some backendB)"
    by (simp add: bs a b1)
  from t [where eid = None and s = None]
  have 4: "getBackend config0 None (Some STORAGE) None = Inr (Some backendA)"
    by (simp add: bs a b0)
  from 1 2 3 4 bs a b1 b0 show ?thesis by simp
qed

text \<open>
  Claim C9: \<open>toBackendData\<close> reads the session only through \<open>isLoggedIn\<close> and
  \<open>getAuthorizeURL\<close>. For two sessions on which the two operations of a backend answer
  alike, the results are equal; a descriptor consists of the backend's static fields
  \<open>id\<close>, \<open>type\<close>, \<open>displayName\<close>, \<open>icon\<close>, \<open>disableLogout\<close> and of the two answers,
  and a rejection is the rejection of one of the two operations.
\<close>

theorem toBackendData_reads_two_operations:
  "isLoggedIn b s1 = isLoggedIn b s2 \<Longrightarrow> getAuthorizeURL b s1 = getAuthorizeURL b s2 \<Longrightarrow>
   toBackendData s1 b = toBackendData s2 b
   \<and> (case toBackendData s1 b of
        Inl e \<Rightarrow> isLoggedIn b s1 = Inl e \<or> getAuthorizeURL b s1 = Inl e
      | Inr d \<Rightarrow>
          isLoggedIn b s1 = Inr (bd_isLoggedIn d) \<and> getAuthorizeURL b s1 = Inr (bd_authUrl d)
          \<and> d = \<lparr>bd_backendId = backend_id b, bd_type = backend_type b,
                  bd_displayName = displayName b, bd_icon = icon b,
                  bd_disableLogout = (disableLogout b = Some True),
                  bd_isLoggedIn = bd_isLoggedIn d, bd_authUrl = bd_authUrl d\<rparr>)"
  by (auto simp: toBackendData_def split: sum.splits)

theorem toBackendData_reads_two_operations_witness:
  "isLoggedIn backendB (Some False) = isLoggedIn backendB None
   \<and> getAuthorizeURL backendB (Some False) = getAuthorizeURL backendB None
   \<and> toBackendData (Some False) backendB = toBackendData None backendB
   \<and> toBackendData None backendB =
       Inr \<lparr>bd_backendId = ''b'', bd_type = STORAGE, bd_displayName = ''B'', bd_icon = ''b.png'',
            bd_disableLogout = True, bd_isLoggedIn = False, bd_authUrl = None\<rparr>"
proof -
  have h1: "isLoggedIn backendB (Some False) = isLoggedIn backendB None"
    by (simp add: backendB_def)
  have h2: "getAuthorizeURL backendB (Some False) = getAuthorizeURL backendB None"
    by (simp add: backendB_def)
  have v: "toBackendData None backendB =
       Inr \<lparr>bd_backendId = ''b'', bd_type = STORAGE, bd_displayName = ''B'', bd_icon = ''b.png'',
            bd_disableLogout = True, bd_isLoggedIn = False, bd_authUrl = None\<rparr>"
    by (simp add: toBackendData_def backendB_def)
  from toBackendData_reads_two_operations [OF h1 h2] h1 h2 v show ?thesis by simp
qed

section \<open>Properties of the routes\<close>

lemmas route_ex =
  statusReq_def logoutReq_def untypedStatusReq_def listReq_def callbackReq_def statusReqE_def
  dataB_def dataH_def toBackendEnum_def asciiUpperCase_def upper_char_def

lemma websiteMetaOf_falsy:
  "websiteId = None \<or> websiteId = Some [] \<or> backend_type b = HOSTING \<Longrightarrow>
   \<exists>wm. websiteMetaOf b s websiteId = Inr wm \<and> \<not> truthy wm"
  by (auto simp: websiteMetaOf_def split: option.splits)

lemma websiteMetaOf_truthy:
  "websiteMetaOf b s websiteId = Inr wm \<Longrightarrow> truthy wm \<Longrightarrow>
   \<exists>w m. websiteId = Some w \<and> w \<noteq> [] \<and> backend_type b = STORAGE
         \<and> getSiteMeta b s w = Inr m \<and> wm = Meta m"
  by (auto simp: websiteMetaOf_def split: option.splits if_splits sum.splits)

lemma loginStatus_no_backend:
  assumes "req_config r = Some c" and "req_session r = Some s"
    and "getBackend c (Some s) (ls_type (req_query r)) (ls_backendId (req_query r)) = Inr None"
  shows "routeLoginStatus r =
     \<lparr>res_status = 500, res_body = ApiResponseError True ''No backend found''\<rparr>"
  using assms by (simp add: routeLoginStatus_def loginStatusTry_def requiredParam_def)

lemma loginStatus_not_logged_in:
  assumes "req_config r = Some c" and "req_session r = Some s"
    and "getBackend c (Some s) (ls_type (req_query r)) (ls_backendId (req_query r)) =
      Inr (Some b)"
    and "isLoggedIn b (Some s) = Inr False"
  shows "routeLoginStatus r =
     \<lparr>res_status = 401, res_body = ApiResponseError True ''Not logged in''\<rparr>"
  using assms by (simp add: routeLoginStatus_def loginStatusTry_def requiredParam_def)

lemma loginStatus_success:
  assumes "req_config r = Some c" and "req_session r = Some s"
    and "getBackend c (Some s) (ls_type (req_query r)) (ls_backendId (req_query r)) =
      Inr (Some b)"
    and "isLoggedIn b (Some s) = Inr True"
    and "toBackendData (Some s) b = Inr bd" and "getUserData b (Some s) = Inr u"
    and "websiteMetaOf b (Some s) (ls_id (req_query r)) = Inr wm"
  shows "routeLoginStatus r =
           \<lparr>res_status = 200, res_body = ApiBackendLoginStatusResponse bd u wm\<rparr>"
  using assms by (simp add: routeLoginStatus_def loginStatusTry_def requiredParam_def)

lemma loginStatus_success_inv:
  assumes "res_body (routeLoginStatus r) = ApiBackendLoginStatusResponse bd u wm"
  shows "\<exists>c s b. req_config r = Some c \<and> req_session r = Some s
     \<and> getBackend c (Some s) (ls_type (req_query r)) (ls_backendId (req_query r)) =
         Inr (Some b)
     \<and> isLoggedIn b (Some s) = Inr True
     \<and> toBackendData (Some s) b = Inr bd \<and> getUserData b (Some s) = Inr u
     \<and> websiteMetaOf b (Some s) (ls_id (req_query r)) = Inr wm
     \<and> res_status (routeLoginStatus r) = 200"
  using assms
  by (auto simp: routeLoginStatus_def loginStatusTry_def requiredParam_def
           split: sum.splits option.splits bool.splits)

text \<open>
  Claim C10: the login-status response carries a \<open>websiteMeta\<close> only for a request with a
  website id and a resolved backend of type \<open>STORAGE\<close>. With the backend resolved and
  logged in and its descriptor and user data obtained: without a website id (absent or
  empty), or for a \<open>HOSTING\<close> backend, the route still answers 200 with the backend and
  the user, and a \<open>websiteMeta\<close> that is falsy; with a website id and a \<open>STORAGE\<close>
  backend it answers 200 with what \<open>getSiteMeta\<close> gave. Conversely a response body with a
  truthy \<open>websiteMeta\<close> comes from a request with a non-empty website id whose resolved
  backend has type \<open>STORAGE\<close>, and the value is that of \<open>getSiteMeta\<close>.
\<close>

theorem loginStatus_websiteMeta:
  "(req_config r = Some c \<and> req_session r = Some s
     \<and> getBackend c (Some s) (ls_type (req_query r)) (ls_backendId (req_query r)) =
         Inr (Some b)
     \<and> isLoggedIn b (Some s) = Inr True
     \<and> toBackendData (Some s) b = Inr bd \<and> getUserData b (Some s) = Inr u
     \<and> (ls_id (req_query r) = None \<or> ls_id (req_query r) = Some [] \<or> backend_type b = HOSTING)
     \<longrightarrow> (\<exists>wm. routeLoginStatus r =
                 \<lparr>res_status = 200, res_body = ApiBackendLoginStatusResponse bd u wm\<rparr>
               \<and> \<not> truthy wm))
   \<and> (req_config r = Some c \<and> req_session r = Some s
     \<and> getBackend c (Some s) (ls_type (req_query r)) (ls_backendId (req_query r)) =
         Inr (Some b)
     \<and> isLoggedIn b (Some s) = Inr True
     \<and> toBackendData (Some s) b = Inr bd \<and> getUserData b (Some s) = Inr u
     \<and> ls_id (req_query r) = Some w \<and> w \<noteq> [] \<and> backend_type b = STORAGE
     \<and> getSiteMeta b (Some s) w = Inr m
     \<longrightarrow> routeLoginStatus r =
           \<lparr>res_status = 200, res_body = ApiBackendLoginStatusResponse bd u (Meta m)\<rparr>)
   \<and> (res_body (routeLoginStatus r) = ApiBackendLoginStatusResponse bd' u' wm' \<and> truthy wm'
     \<longrightarrow> (\<exists>c' s' b' w' m'. req_config r = Some c' \<and> req_session r = Some s'
           \<and> getBackend c' (Some s') (ls_type (req_query r)) (ls_backendId (req_query r)) =
               Inr (Some b')
           \<and> ls_id (req_query r) = Some w' \<and> w' \<noteq> [] \<and> backend_type b' = STORAGE
           \<and> getSiteMeta b' (Some s') w' = Inr m' \<and> wm' = Meta m'))"
proof (intro conjI impI)
  assume h: "req_config r = Some c \<and> req_session r = Some s
     \<and> getBackend c (Some s) (ls_type (req_query r)) (ls_backendId (req_query r)) =
         Inr (Some b)
     \<and> isLoggedIn b (Some s) = Inr True
     \<and> toBackendData (Some s) b = Inr bd \<and> getUserData b (Some s) = Inr u
     \<and> (ls_id (req_query r) = None \<or> ls_id (req_query r) = Some [] \<or> backend_type b = HOSTING)"
  then obtain wm where
    wm: "websiteMetaOf b (Some s) (ls_id (req_query r)) = Inr wm" "\<not> truthy wm"
    using websiteMetaOf_falsy [of "ls_id (req_query r)" b "Some s"] by blast
  with h loginStatus_success [of r c s b bd u wm]
  show "\<exists>wm. routeLoginStatus r =
                 \<lparr>res_status = 200, res_body = ApiBackendLoginStatusResponse bd u wm\<rparr>
               \<and> \<not> truthy wm"
    by blast
next
  assume h: "req_config r = Some c \<and> req_session r = Some s
     \<and> getBackend c (Some s) (ls_type (req_query r)) (ls_backendId (req_query r)) =
         Inr (Some b)
     \<and> isLoggedIn b (Some s) = Inr True
     \<and> toBackendData (Some s) b = Inr bd \<and> getUserData b (Some s) = Inr u
     \<and> ls_id (req_query r) = Some w \<and> w \<noteq> [] \<and> backend_type b = STORAGE
     \<and> getSiteMeta b (Some s) w = Inr m"
  then have "websiteMetaOf b (Some s) (ls_id (req_query r)) = Inr (Meta m)"
    by (simp add: websiteMetaOf_def)
  with h loginStatus_success [of r c s b bd u "Meta m"]
  show "routeLoginStatus r =
           \<lparr>res_status = 200, res_body = ApiBackendLoginStatusResponse bd u (Meta m)\<rparr>"
    by blast
next
  assume h: "res_body (routeLoginStatus r) = ApiBackendLoginStatusResponse bd' u' wm'
      \<and> truthy wm'"
  then obtain c' s' b' where
    1: "req_config r = Some c'" "req_session r = Some s'"
      "getBackend c' (Some s') (ls_type (req_query r)) (ls_backendId (req_query r)) =
         Inr (Some b')"
      "websiteMetaOf b' (Some s') (ls_id (req_query r)) = Inr wm'"
    using loginStatus_success_inv [of r bd' u' wm'] by blast
  from websiteMetaOf_truthy [OF 1(4)] h obtain w' m' where
    "ls_id (req_query r) = Some w'" "w' \<noteq> []" "backend_type b' = STORAGE"
    "getSiteMeta b' (Some s') w' = Inr m'" "wm' = Meta m'"
    by blast
  with 1 show "\<exists>c' s' b' w' m'. req_config r = Some c' \<and> req_session r = Some s'
           \<and> getBackend c' (Some s') (ls_type (req_query r)) (ls_backendId (req_query r)) =
               Inr (Some b')
           \<and> ls_id (req_query r) = Some w' \<and> w' \<noteq> [] \<and> backend_type b' = STORAGE
           \<and> getSiteMeta b' (Some s') w' = Inr m' \<and> wm' = Meta m'"
    by blast
qed

lemma resolve_storage:
  "getBackend config0 (Some True) (Some STORAGE) None = Inr (Some backendB)"
  by (simp add: getBackend_def loggedInOrFirst_def backend_ex)

lemma resolve_hosting:
  "getBackend config0 (Some True) (Some HOSTING) None = Inr (Some backendH)"
  by (simp add: getBackend_def loggedInOrFirst_def backend_ex)

lemma facts_B:
  "isLoggedIn backendB (Some True) = Inr True" "toBackendData (Some True) backendB = Inr dataB"
  "getUserData backendB (Some True) = Inr ''bob''" "backend_type backendB = STORAGE"
  "getSiteMeta backendB (Some True) ''site'' = Inr ''meta of site''"
  by (simp_all add: toBackendData_def backendB_def dataB_def)

lemma facts_H:
  "isLoggedIn backendH (Some True) = Inr True" "toBackendData (Some True) backendH = Inr dataH"
  "getUserData backendH (Some True) = Inr ''hal''" "backend_type backendH = HOSTING"
  by (simp_all add: toBackendData_def backendH_def dataH_def)

theorem loginStatus_websiteMeta_witness:
  "getBackend config0 (Some True) (Some HOSTING) None = Inr (Some backendH)
   \<and> backend_type backendH = HOSTING
   \<and> routeLoginStatus (statusReq True HOSTING None (Some ''site'')) =
       \<lparr>res_status = 200, res_body = ApiBackendLoginStatusResponse dataH ''hal'' MetaFalse\<rparr>
   \<and> getBackend config0 (Some True) (Some STORAGE) None = Inr (Some backendB)
   \<and> backend_type backendB = STORAGE
   \<and> routeLoginStatus (statusReq True STORAGE None None) =
       \<lparr>res_status = 200, res_body = ApiBackendLoginStatusResponse dataB ''bob'' MetaUndefined\<rparr>
   \<and> getSiteMeta backendB (Some True) ''site'' = Inr ''meta of site''
   \<and> routeLoginStatus (statusReq True STORAGE None (Some ''site'')) =
       \<lparr>res_status = 200,
        res_body = ApiBackendLoginStatusResponse dataB ''bob'' (Meta ''meta of site'')\<rparr>"
proof -
  have q: "req_config (statusReq x t i w) = Some config0" "req_session (statusReq x t i w) = Some x"
    "ls_type (req_query (statusReq x t i w)) = Some t"
    "ls_backendId (req_query (statusReq x t i w)) = i"
    "ls_id (req_query (statusReq x t i w)) = w" for x t i w
    by (simp_all add: statusReq_def)
  from loginStatus_websiteMeta
    [where r = "statusReq True HOSTING None (Some ''site'')" and c = config0 and s = True
       and b = backendH and bd = dataH and u = "''hal''", THEN conjunct1]
  have h: "\<exists>wm. routeLoginStatus (statusReq True HOSTING None (Some ''site'')) =
       \<lparr>res_status = 200, res_body = ApiBackendLoginStatusResponse dataH ''hal'' wm\<rparr>
       \<and> \<not> truthy wm"
    by (simp add: q resolve_hosting facts_H)
  have "websiteMetaOf backendH (Some True) (Some ''site'') = Inr MetaFalse"
    by (simp add: websiteMetaOf_def facts_H)
  then have hv: "routeLoginStatus (statusReq True HOSTING None (Some ''site'')) =
       \<lparr>res_status = 200, res_body = ApiBackendLoginStatusResponse dataH ''hal'' MetaFalse\<rparr>"
    using loginStatus_success [where c = config0 and s = True and b = backendH
        and r = "statusReq True HOSTING None (Some ''site'')" and bd = dataH and u = "''hal''"]
    by (simp add: q resolve_hosting facts_H)
  from loginStatus_websiteMeta
    [where r = "statusReq True STORAGE None None" and c = config0 and s = True
       and b = backendB and bd = dataB and u = "''bob''", THEN conjunct1]
  have n: "\<exists>wm. routeLoginStatus (statusReq True STORAGE None None) =
       \<lparr>res_status = 200, res_body = ApiBackendLoginStatusResponse dataB ''bob'' wm\<rparr>
       \<and> \<not> truthy wm"
    by (simp add: q resolve_storage facts_B)
  have "websiteMetaOf backendB (Some True) None = Inr MetaUndefined"
    by (simp add: websiteMetaOf_def)
  then have nv: "routeLoginStatus (statusReq True STORAGE None None) =
       \<lparr>res_status = 200, res_body = ApiBackendLoginStatusResponse dataB ''bob'' MetaUndefined\<rparr>"
    using loginStatus_success [where c = config0 and s = True and b = backendB
        and r = "statusReq True STORAGE None None" and bd = dataB and u = "''bob''"]
    by (simp add: q resolve_storage facts_B)
  from loginStatus_websiteMeta
    [where r = "statusReq True STORAGE None (Some ''site'')" and c = config0 and s = True
       and b = backendB and bd = dataB and u = "''bob''" and w = "''site''"
       and m = "''meta of site''", THEN conjunct2, THEN conjunct1]
  have sv: "routeLoginStatus (statusReq True STORAGE None (Some ''site'')) =
       \<lparr>res_status = 200,
        res_body = ApiBackendLoginStatusResponse dataB ''bob'' (Meta ''meta of site'')\<rparr>"
    by (simp add: q resolve_storage facts_B)
  from h n hv nv sv resolve_hosting resolve_storage facts_B facts_H show ?thesis by simp
qed

lemma loginStatus_missing:
  "req_config r = None \<or> req_session r = None \<Longrightarrow> res_status (routeLoginStatus r) = 400"
  by (auto simp: routeLoginStatus_def loginStatusTry_def requiredParam_def codeOr_def
           split: option.splits)

lemma loginStatus_message:
  assumes "res_body (routeLoginStatus r) = ApiResponseError flag msg"
  shows "flag \<and> (msg = ''No backend found'' \<or> msg = ''Not logged in''
      \<or> (\<exists>e. loginStatusTry r = Inl e \<and> msg = err_message e))"
proof (cases "loginStatusTry r")
  case (Inl e)
  with assms show ?thesis by (simp add: routeLoginStatus_def)
next
  case (Inr res)
  with assms have b: "res_body res = ApiResponseError flag msg"
    by (simp add: routeLoginStatus_def)
  from Inr have "res_body res = ApiResponseError True ''No backend found''
      \<or> res_body res = ApiResponseError True ''Not logged in''
      \<or> (\<exists>bd u wm. res_body res = ApiBackendLoginStatusResponse bd u wm)"
    by (auto simp: loginStatusTry_def split: sum.splits option.splits bool.splits)
  with b show ?thesis by auto
qed

lemma list_missing:
  "req_config q = None \<or> li_type (req_query q) = None \<Longrightarrow>
   map res_status (routeListBackends up q) = [400]"
  by (auto simp: routeListBackends_def listTry_def requiredParam_def codeOr_def Let_def
           split: option.splits)

lemma rights_map_Inr: "[d. Inr d \<leftarrow> map Inr ds] = ds"
  by (induction ds) auto

lemma all_resolved: "list_all (\<lambda>r. \<not> isl r) (map Inr ds)"
  by (induction ds) auto

lemma listInner_ok:
  assumes "map (toBackendData s) bs = map Inr ds"
  shows "listInner bs s = [\<lparr>res_status = 200, res_body = ApiBackendListResponse ds\<rparr>]"
  unfolding listInner_def Let_def assms
  by (simp only: all_resolved rights_map_Inr if_True)

lemma list_ok:
  assumes "req_config q = Some c" and "li_type (req_query q) = Some t"
    and "map (toBackendData (req_session q)) (getBackends c (toBackendEnum up t)) = map Inr ds"
  shows "routeListBackends up q =
     [\<lparr>res_status = 200, res_body = ApiBackendListResponse ds\<rparr>]"
  using assms(1,2) listInner_ok [OF assms(3)]
  by (simp add: routeListBackends_def listTry_def requiredParam_def Let_def)

lemma listInner_message:
  "res \<in> set (listInner bs s) \<Longrightarrow> res_body res = ApiResponseError True msg \<Longrightarrow> msg \<noteq> []"
proof -
  have "res \<in> set [\<lparr>res_status = codeOr error 500,
                res_body = ApiResponseError True
                  (''Error while listing backends: '' @ err_message error)\<rparr>.
               Inl error \<leftarrow> rs] \<Longrightarrow> res_body res = ApiResponseError True msg \<Longrightarrow> msg \<noteq> []"
    for rs :: "(Error + BackendData) list"
    by (induction rs) (auto split: sum.splits)
  then show "res \<in> set (listInner bs s) \<Longrightarrow> res_body res = ApiResponseError True msg \<Longrightarrow> msg \<noteq> []"
    by (auto simp: listInner_def Let_def split: if_splits)
qed

lemma list_message:
  "res \<in> set (routeListBackends up q) \<Longrightarrow> res_body res = ApiResponseError True msg \<Longrightarrow>
   msg \<noteq> []"
  by (auto simp: routeListBackends_def listTry_def Let_def
           split: sum.splits dest: listInner_message)

lemma logout_missing:
  "lo_backendId (req_query l) = None \<or> lo_type (req_query l) = None \<or> req_config l = None \<Longrightarrow>
   res_status (routeLogout up l) = 400"
  by (auto simp: routeLogout_def logoutTry_def requiredParam_def codeOr_def Let_def
           split: option.splits)

lemma logout_not_found:
  assumes "lo_backendId (req_query l) = Some i" and "req_config l = Some c"
    and "lo_type (req_query l) = Some t"
    and "getBackend c (req_session l) (toBackendEnum up t) (Some i) = Inr None"
  shows "routeLogout up l =
     \<lparr>res_status = 400,
      res_body = ApiResponseError True
        (''Error in the logout request: Backend not found '' @ i @ '' '' @
         typeText (toBackendEnum up t))\<rparr>"
  using assms
  by (simp add: routeLogout_def logoutTry_def requiredParam_def codeOr_def Let_def)

lemma logout_ok:
  assumes "lo_backendId (req_query l) = Some i" and "req_config l = Some c"
    and "lo_type (req_query l) = Some t"
    and "getBackend c (req_session l) (toBackendEnum up t) (Some i) = Inr (Some b)"
    and "logout b (req_session l) = Inr ()"
  shows "routeLogout up l = \<lparr>res_status = 200, res_body = ApiResponseError False ''OK''\<rparr>"
  using assms
  by (simp add: routeLogout_def logoutTry_def logoutInner_def requiredParam_def Let_def)

lemma getBackend_untyped:
  "i \<noteq> [] \<Longrightarrow> getBackend c s None (Some i) = Inr None"
  by (simp add: getBackend_def find_None_iff)

lemma logout_malformed_type:
  assumes "lo_backendId (req_query l) = Some i" and "i \<noteq> []"
    and "lo_type (req_query l) = Some t" and "toBackendEnum up t = None"
  shows "res_status (routeLogout up l) = 400"
proof (cases "req_config l")
  case None
  then show ?thesis using logout_missing [of l up] by simp
next
  case (Some c)
  from assms getBackend_untyped [OF assms(2), of c "req_session l"]
  have "getBackend c (req_session l) (toBackendEnum up t) (Some i) = Inr None" by simp
  from logout_not_found [OF assms(1) Some assms(3) this] show ?thesis by simp
qed

lemma logout_message:
  "res_body (routeLogout up l) = ApiResponseError True msg \<Longrightarrow> msg \<noteq> []"
  by (auto simp: routeLogout_def logoutTry_def logoutInner_def Let_def
           split: sum.splits option.splits)

lemma callback_error:
  "cb_error (req_query s) = Some e \<Longrightarrow> e \<noteq> [] \<Longrightarrow>
   routeLoginSuccess up s =
     \<lparr>res_status = 400,
      res_body = ApiBackendLoggedInPostMessage True (''Error in the request '' @ e) None\<rparr>"
  by (simp add: routeLoginSuccess_def loginSuccessTry_def sendHtml_def Let_def)

lemma callback_missing:
  "cb_backendId (req_query s) = None \<or> cb_type (req_query s) = None \<or> req_config s = None \<Longrightarrow>
   res_status (routeLoginSuccess up s) = 400"
  by (auto simp: routeLoginSuccess_def loginSuccessTry_def requiredParam_def sendHtml_def Let_def
           split: option.splits)

lemma callback_not_found:
  assumes "cb_error (req_query s) = None \<or> cb_error (req_query s) = Some []"
    and "cb_backendId (req_query s) = Some i" and "req_config s = Some c"
    and "cb_type (req_query s) = Some t"
    and "getBackend c (req_session s) (toBackendEnum up t) (Some i) = Inr None"
  shows "routeLoginSuccess up s =
     \<lparr>res_status = 400,
      res_body = ApiBackendLoggedInPostMessage True
        (''Error in the request Backend not found '' @ i) None\<rparr>"
  using assms
  by (auto simp: routeLoginSuccess_def loginSuccessTry_def requiredParam_def sendHtml_def Let_def)

lemma callback_ok:
  assumes "cb_error (req_query s) = None \<or> cb_error (req_query s) = Some []"
    and "cb_backendId (req_query s) = Some i" and "req_config s = Some c"
    and "cb_type (req_query s) = Some t"
    and "getBackend c (req_session s) (toBackendEnum up t) (Some i) = Inr (Some b)"
  shows "routeLoginSuccess up s =
     \<lparr>res_status = 200, res_body = ApiBackendLoggedInPostMessage False ''Logged in'' (Some i)\<rparr>"
  using assms
  by (auto simp: routeLoginSuccess_def loginSuccessTry_def requiredParam_def sendHtml_def Let_def)

lemma callback_malformed_type:
  assumes "cb_backendId (req_query s) = Some i" and "i \<noteq> []"
    and "cb_type (req_query s) = Some t" and "toBackendEnum up t = None"
  shows "res_status (routeLoginSuccess up s) = 400"
proof (cases "req_config s")
  case None
  then show ?thesis using callback_missing [of s up] by simp
next
  case (Some c)
  from assms getBackend_untyped [OF assms(2), of c "req_session s"]
  have g: "getBackend c (req_session s) (toBackendEnum up t) (Some i) = Inr None" by simp
  show ?thesis
  proof (cases "cb_error (req_query s) = None \<or> cb_error (req_query s) = Some []")
    case True
    from callback_not_found [OF True assms(1) Some assms(3) g] show ?thesis by simp
  next
    case False
    then obtain e where "cb_error (req_query s) = Some e" "e \<noteq> []" by auto
    from callback_error [OF this] show ?thesis by simp
  qed
qed

lemma callback_message:
  "res_body (routeLoginSuccess up s) = ApiBackendLoggedInPostMessage True msg bid \<Longrightarrow> msg \<noteq> []"
  by (auto simp: routeLoginSuccess_def loginSuccessTry_def sendHtml_def Let_def
           split: sum.splits option.splits if_splits)

text \<open>
  Claim C4, as stated: on every backend route the status is 500 when no backend matches
  the type and id, 401 when the resolved backend reports the session not logged in, 400
  whenever a required parameter is missing or malformed, and every error response has a
  readable message. Each part fails somewhere. For an unknown backend the logout and
  login-callback routes answer 400 (the error is thrown without a code inside the
  request's \<open>try\<close>, whose \<open>catch\<close> defaults to 400) and the list route answers 200
  with the empty list. The logout and login-callback routes answer 200 for a session
  that is not logged in. For a type that names no backend type the logout and
  login-callback routes answer 200 when \<open>backendId\<close> is empty and the list route answers
  200; the login-status route answers 500 for a request with a backend id and no type. And the login-status route passes on the empty
  message of a rejected backend operation.
\<close>

theorem backend_routes_status_divergences:
  "getBackend config0 None (toBackendEnum asciiUpperCase ''storage'') (Some ''zzz'') = Inr None
   \<and> res_status (routeLogout asciiUpperCase (logoutReq (Some ''zzz'') (Some ''storage''))) = 400
   \<and> getBackend config0 None (toBackendEnum asciiUpperCase ''storage'') (Some ''a'') =
       Inr (Some backendA)
   \<and> isLoggedIn backendA None = Inr False
   \<and> res_status (routeLogout asciiUpperCase (logoutReq (Some ''a'') (Some ''storage''))) = 200
   \<and> toBackendEnum asciiUpperCase ''foo'' = None
   \<and> res_status (routeLogout asciiUpperCase (logoutReq (Some '''') (Some ''foo''))) = 200
   \<and> ls_type (req_query (untypedStatusReq (Some ''b''))) = None
   \<and> res_status (routeLoginStatus (untypedStatusReq (Some ''b''))) = 500
   \<and> map res_status (routeListBackends asciiUpperCase (listReq config0 (Some ''foo''))) = [200]
   \<and> getBackends emptyConfig (toBackendEnum asciiUpperCase ''storage'') = []
   \<and> routeListBackends asciiUpperCase (listReq emptyConfig (Some ''storage'')) =
       [\<lparr>res_status = 200, res_body = ApiBackendListResponse []\<rparr>]
   \<and> routeLoginStatus statusReqE = \<lparr>res_status = 500, res_body = ApiResponseError True []\<rparr>
   \<and> res_status (routeLoginSuccess asciiUpperCase
         (callbackReq None (Some ''zzz'') (Some ''storage''))) = 400
   \<and> res_status (routeLoginSuccess asciiUpperCase
         (callbackReq None (Some ''a'') (Some ''storage''))) = 200
   \<and> res_status (routeLoginSuccess asciiUpperCase
         (callbackReq None (Some '''') (Some ''foo''))) = 200"
proof -
  have e: "toBackendEnum asciiUpperCase ''storage'' = Some STORAGE"
    "toBackendEnum asciiUpperCase ''foo'' = None"
    by (simp_all add: toBackendEnum_def asciiUpperCase_def upper_char_def)
  have g: "getBackend config0 None (Some STORAGE) (Some ''zzz'') = Inr None"
    "getBackend config0 None (Some STORAGE) (Some ''a'') = Inr (Some backendA)"
    "getBackend config0 None None (Some '''') = Inr (Some backendA)"
    by (simp_all add: getBackend_def loggedInOrFirst_def backend_ex)
  have a: "isLoggedIn backendA None = Inr False" "logout backendA None = Inr ()"
    by (simp_all add: backendA_def)
  have 1: "res_status (routeLogout asciiUpperCase (logoutReq (Some ''zzz'') (Some ''storage''))) =
      400"
    by (simp add: routeLogout_def logoutTry_def requiredParam_def codeOr_def Let_def
        logoutReq_def e g)
  have 2: "res_status (routeLogout asciiUpperCase (logoutReq (Some ''a'') (Some ''storage''))) =
      200"
    by (simp add: routeLogout_def logoutTry_def logoutInner_def requiredParam_def Let_def
        logoutReq_def e g a)
  have 3: "res_status (routeLogout asciiUpperCase (logoutReq (Some '''') (Some ''foo''))) = 200"
    by (simp add: routeLogout_def logoutTry_def logoutInner_def requiredParam_def Let_def
        logoutReq_def e g a)
  have 4: "ls_type (req_query (untypedStatusReq (Some ''b''))) = None"
    "res_status (routeLoginStatus (untypedStatusReq (Some ''b''))) = 500"
    using getBackend_untyped [of "''b''" config0 "Some True"]
    by (simp_all add: routeLoginStatus_def loginStatusTry_def requiredParam_def
        untypedStatusReq_def)
  have 5: "map res_status (routeListBackends asciiUpperCase (listReq config0 (Some ''foo''))) =
      [200]"
    by (simp add: routeListBackends_def listTry_def listInner_def requiredParam_def Let_def
        listReq_def e toBackendData_def backend_ex)
  have 6: "getBackends emptyConfig (toBackendEnum asciiUpperCase ''storage'') = []"
    "routeListBackends asciiUpperCase (listReq emptyConfig (Some ''storage'')) =
       [\<lparr>res_status = 200, res_body = ApiBackendListResponse []\<rparr>]"
    by (simp_all add: routeListBackends_def listTry_def listInner_def requiredParam_def Let_def
        listReq_def emptyConfig_def)
  have 7: "routeLoginStatus statusReqE =
      \<lparr>res_status = 500, res_body = ApiResponseError True []\<rparr>"
    by (simp add: routeLoginStatus_def loginStatusTry_def requiredParam_def codeOr_def
        statusReqE_def configE_def backendE_def getBackend_def loggedInOrFirst_def)
  have 8: "res_status (routeLoginSuccess asciiUpperCase
         (callbackReq None (Some ''zzz'') (Some ''storage''))) = 400"
    by (simp add: routeLoginSuccess_def loginSuccessTry_def requiredParam_def sendHtml_def
        Let_def callbackReq_def e g)
  have 9: "res_status (routeLoginSuccess asciiUpperCase
         (callbackReq None (Some ''a'') (Some ''storage''))) = 200"
    "res_status (routeLoginSuccess asciiUpperCase
         (callbackReq None (Some '''') (Some ''foo''))) = 200"
    by (simp_all add: routeLoginSuccess_def loginSuccessTry_def requiredParam_def sendHtml_def
        Let_def callbackReq_def e g)
  from e g a 1 2 3 4 5 6 7 8 9 show ?thesis by simp
qed

text \<open>
  Claim C4, amended. Of the four backend routes:

  \<^item> login status answers 500 with \<open>No backend found\<close> when no backend is resolved, 401
    with \<open>Not logged in\<close> when the resolved backend reports the session not logged in,
    200 with \<open>{backend, user, websiteMeta}\<close> when it reports it logged in and the
    descriptor, the user data and the website meta data are obtained, and 400 when the
    config or the session object is missing; an error response of this route carries
    \<open>No backend found\<close>, \<open>Not logged in\<close> or, unchanged, the message of the error the
    route caught;

  \<^item> list answers 400 when the config or the type is missing, and 200 with the
    descriptors when both are present and every descriptor is obtained, whatever the
    type names and whatever the login state; its error responses carry a non-empty
    message;

  \<^item> logout answers 400 when \<open>backendId\<close>, the type or the config is missing, 400 when
    \<open>backendId\<close> is non-empty and the type names no backend type, 400 with
    \<open>Error in the logout request: Backend not found\<close>, the id and the type when no
    backend matches, and 200 with \<open>OK\<close> when the backend is found and its logout
    resolves, whatever the login state; its error responses carry a non-empty message;

  \<^item> login callback answers 400 with \<open>Error in the request\<close> and the error when the
    query reports a non-empty error, 400 when \<open>backendId\<close>, the type or the config is
    missing, 400 when \<open>backendId\<close> is non-empty and the type names no backend type, 400
    with \<open>Error in the request Backend not found\<close> and the id when no error is reported
    (none or an empty one) and no backend matches, and 200 with \<open>Logged in\<close> when no
    error is reported and the backend is found, whatever the login state; its error
    pages carry a non-empty message.

  This holds for every case mapping \<open>up\<close> taken for \<open>toUpperCase\<close>.
\<close>

theorem route_status_codes:
  "(req_config r = Some c \<and> req_session r = Some s
      \<and> getBackend c (Some s) (ls_type (req_query r)) (ls_backendId (req_query r)) = Inr None
    \<longrightarrow> routeLoginStatus r =
          \<lparr>res_status = 500, res_body = ApiResponseError True ''No backend found''\<rparr>)
   \<and> (req_config r = Some c \<and> req_session r = Some s
      \<and> getBackend c (Some s) (ls_type (req_query r)) (ls_backendId (req_query r)) =
          Inr (Some b)
      \<and> isLoggedIn b (Some s) = Inr False
    \<longrightarrow> routeLoginStatus r =
          \<lparr>res_status = 401, res_body = ApiResponseError True ''Not logged in''\<rparr>)
   \<and> (req_config r = Some c \<and> req_session r = Some s
      \<and> getBackend c (Some s) (ls_type (req_query r)) (ls_backendId (req_query r)) =
          Inr (Some b)
      \<and> isLoggedIn b (Some s) = Inr True
      \<and> toBackendData (Some s) b = Inr bd \<and> getUserData b (Some s) = Inr u
      \<and> websiteMetaOf b (Some s) (ls_id (req_query r)) = Inr wm
    \<longrightarrow> routeLoginStatus r =
          \<lparr>res_status = 200, res_body = ApiBackendLoginStatusResponse bd u wm\<rparr>)
   \<and> (req_config r = None \<or> req_session r = None
    \<longrightarrow> res_status (routeLoginStatus r) = 400)
   \<and> (res_body (routeLoginStatus r) = ApiResponseError flag msg
    \<longrightarrow> flag \<and> (msg = ''No backend found'' \<or> msg = ''Not logged in''
          \<or> (\<exists>e. loginStatusTry r = Inl e \<and> msg = err_message e)))
   \<and> (req_config q = None \<or> li_type (req_query q) = None
    \<longrightarrow> map res_status (routeListBackends up q) = [400])
   \<and> (req_config q = Some c \<and> li_type (req_query q) = Some t
      \<and> map (toBackendData (req_session q)) (getBackends c (toBackendEnum up t)) = map Inr ds
    \<longrightarrow> routeListBackends up q =
          [\<lparr>res_status = 200, res_body = ApiBackendListResponse ds\<rparr>])
   \<and> (res \<in> set (routeListBackends up q) \<and> res_body res = ApiResponseError True msg
    \<longrightarrow> msg \<noteq> [])
   \<and> (lo_backendId (req_query l) = None \<or> lo_type (req_query l) = None \<or> req_config l = None
    \<longrightarrow> res_status (routeLogout up l) = 400)
   \<and> (lo_backendId (req_query l) = Some i \<and> i \<noteq> [] \<and> lo_type (req_query l) = Some t
      \<and> toBackendEnum up t = None
    \<longrightarrow> res_status (routeLogout up l) = 400)
   \<and> (lo_backendId (req_query l) = Some i \<and> req_config l = Some c'
      \<and> lo_type (req_query l) = Some t
      \<and> getBackend c' (req_session l) (toBackendEnum up t) (Some i) = Inr None
    \<longrightarrow> routeLogout up l =
          \<lparr>res_status = 400,
           res_body = ApiResponseError True
             (''Error in the logout request: Backend not found '' @ i @ '' '' @
              typeText (toBackendEnum up t))\<rparr>)
   \<and> (lo_backendId (req_query l) = Some i \<and> req_config l = Some c'
      \<and> lo_type (req_query l) = Some t
      \<and> getBackend c' (req_session l) (toBackendEnum up t) (Some i) = Inr (Some b')
      \<and> logout b' (req_session l) = Inr ()
    \<longrightarrow> routeLogout up l = \<lparr>res_status = 200, res_body = ApiResponseError False ''OK''\<rparr>)
   \<and> (res_body (routeLogout up l) = ApiResponseError True msg \<longrightarrow> msg \<noteq> [])
   \<and> (cb_error (req_query p) = Some e \<and> e \<noteq> []
    \<longrightarrow> routeLoginSuccess up p =
          \<lparr>res_status = 400,
           res_body = ApiBackendLoggedInPostMessage True (''Error in the request '' @ e) None\<rparr>)
   \<and> (cb_backendId (req_query p) = None \<or> cb_type (req_query p) = None \<or> req_config p = None
    \<longrightarrow> res_status (routeLoginSuccess up p) = 400)
   \<and> (cb_backendId (req_query p) = Some i \<and> i \<noteq> [] \<and> cb_type (req_query p) = Some t
      \<and> toBackendEnum up t = None
    \<longrightarrow> res_status (routeLoginSuccess up p) = 400)
   \<and> ((cb_error (req_query p) = None \<or> cb_error (req_query p) = Some [])
      \<and> cb_backendId (req_query p) = Some i \<and> req_config p = Some c'
      \<and> cb_type (req_query p) = Some t
      \<and> getBackend c' (req_session p) (toBackendEnum up t) (Some i) = Inr None
    \<longrightarrow> routeLoginSuccess up p =
          \<lparr>res_status = 400,
           res_body = ApiBackendLoggedInPostMessage True
             (''Error in the request Backend not found '' @ i) None\<rparr>)
   \<and> ((cb_error (req_query p) = None \<or> cb_error (req_query p) = Some [])
      \<and> cb_backendId (req_query p) = Some i \<and> req_config p = Some c'
      \<and> cb_type (req_query p) = Some t
      \<and> getBackend c' (req_session p) (toBackendEnum up t) (Some i) = Inr (Some b')
    \<longrightarrow> routeLoginSuccess up p =
          \<lparr>res_status = 200,
           res_body = ApiBackendLoggedInPostMessage False ''Logged in'' (Some i)\<rparr>)
   \<and> (res_body (routeLoginSuccess up p) = ApiBackendLoggedInPostMessage True msg bid
    \<longrightarrow> msg \<noteq> [])"
  apply (rule conjI)
  subgoal by (intro impI, (elim conjE)?, rule loginStatus_no_backend) assumption+
  apply (rule conjI)
  subgoal by (intro impI, (elim conjE)?, rule loginStatus_not_logged_in) assumption+
  apply (rule conjI)
  subgoal by (intro impI, (elim conjE)?, rule loginStatus_success) assumption+
  apply (rule conjI)
  subgoal by (intro impI, (elim conjE)?, rule loginStatus_missing) assumption+
  apply (rule conjI)
  subgoal by (intro impI, (elim conjE)?, rule loginStatus_message) assumption+
  apply (rule conjI)
  subgoal by (intro impI, (elim conjE)?, rule list_missing) assumption+
  apply (rule conjI)
  subgoal by (intro impI, (elim conjE)?, rule list_ok) assumption+
  apply (rule conjI)
  subgoal by (intro impI, (elim conjE)?, rule list_message) assumption+
  apply (rule conjI)
  subgoal by (intro impI, (elim conjE)?, rule logout_missing) assumption+
  apply (rule conjI)
  subgoal by (intro impI, (elim conjE)?, rule logout_malformed_type) assumption+
  apply (rule conjI)
  subgoal by (intro impI, (elim conjE)?, rule logout_not_found) assumption+
  apply (rule conjI)
  subgoal by (intro impI, (elim conjE)?, rule logout_ok) assumption+
  apply (rule conjI)
  subgoal by (intro impI, (elim conjE)?, rule logout_message) assumption+
  apply (rule conjI)
  subgoal by (intro impI, (elim conjE)?, rule callback_error) assumption+
  apply (rule conjI)
  subgoal by (intro impI, (elim conjE)?, rule callback_missing) assumption+
  apply (rule conjI)
  subgoal by (intro impI, (elim conjE)?, rule callback_malformed_type) assumption+
  apply (rule conjI)
  subgoal by (intro impI, (elim conjE)?, rule callback_not_found) assumption+
  apply (rule conjI)
  subgoal by (intro impI, (elim conjE)?, rule callback_ok) assumption+
  by (intro impI, (elim conjE)?, rule callback_message) assumption+

theorem route_status_codes_witness:
  "getBackend config0 (Some True) (Some STORAGE) (Some ''zzz'') = Inr None
   \<and> routeLoginStatus (statusReq True STORAGE (Some ''zzz'') None) =
       \<lparr>res_status = 500, res_body = ApiResponseError True ''No backend found''\<rparr>
   \<and> getBackend config0 (Some False) (Some STORAGE) (Some ''b'') = Inr (Some backendB)
   \<and> isLoggedIn backendB (Some False) = Inr False
   \<and> routeLoginStatus (statusReq False STORAGE (Some ''b'') None) =
       \<lparr>res_status = 401, res_body = ApiResponseError True ''Not logged in''\<rparr>
   \<and> routeLoginStatus (statusReq True STORAGE None None) =
       \<lparr>res_status = 200, res_body = ApiBackendLoginStatusResponse dataB ''bob'' MetaUndefined\<rparr>
   \<and> req_session ((statusReq True STORAGE None None)\<lparr>req_session := None\<rparr>) = None
   \<and> res_status (routeLoginStatus ((statusReq True STORAGE None None)\<lparr>req_session := None\<rparr>)) =
       400
   \<and> res_body (routeLoginStatus statusReqE) = ApiResponseError True []
   \<and> (\<exists>e. loginStatusTry statusReqE = Inl e \<and> [] = err_message e)
   \<and> li_type (req_query (listReq config0 None)) = None
   \<and> map res_status (routeListBackends asciiUpperCase (listReq config0 None)) = [400]
   \<and> map (toBackendData (Some True))
         (getBackends config0 (toBackendEnum asciiUpperCase ''hosting'')) = map Inr [dataH]
   \<and> routeListBackends asciiUpperCase (listReq config0 (Some ''hosting'')) =
       [\<lparr>res_status = 200, res_body = ApiBackendListResponse [dataH]\<rparr>]
   \<and> routeListBackends asciiUpperCase (listReq config0 None) =
       [\<lparr>res_status = 400,
         res_body = ApiResponseError True
           ''Error in the list backends request: Missing required parameter: Backend type''\<rparr>]
   \<and> ''Error in the list backends request: Missing required parameter: Backend type'' \<noteq> []
   \<and> res_status (routeLogout asciiUpperCase (logoutReq None (Some ''storage''))) = 400
   \<and> toBackendEnum asciiUpperCase ''foo'' = None
   \<and> res_status (routeLogout asciiUpperCase (logoutReq (Some ''a'') (Some ''foo''))) = 400
   \<and> getBackend config0 None (toBackendEnum asciiUpperCase ''storage'') (Some ''zzz'') = Inr None
   \<and> routeLogout asciiUpperCase (logoutReq (Some ''zzz'') (Some ''storage'')) =
       \<lparr>res_status = 400,
        res_body = ApiResponseError True
          ''Error in the logout request: Backend not found zzz STORAGE''\<rparr>
   \<and> ''Error in the logout request: Backend not found zzz STORAGE'' \<noteq> []
   \<and> getBackend config0 None (toBackendEnum asciiUpperCase ''storage'') (Some ''a'') =
       Inr (Some backendA)
   \<and> isLoggedIn backendA None = Inr False
   \<and> routeLogout asciiUpperCase (logoutReq (Some ''a'') (Some ''storage'')) =
       \<lparr>res_status = 200, res_body = ApiResponseError False ''OK''\<rparr>
   \<and> routeLoginSuccess asciiUpperCase (callbackReq (Some ''denied'') None None) =
       \<lparr>res_status = 400,
        res_body = ApiBackendLoggedInPostMessage True ''Error in the request denied'' None\<rparr>
   \<and> ''Error in the request denied'' \<noteq> []
   \<and> res_status (routeLoginSuccess asciiUpperCase (callbackReq None None (Some ''storage''))) = 400
   \<and> res_status (routeLoginSuccess asciiUpperCase (callbackReq None (Some ''a'') (Some ''foo''))) =
       400
   \<and> routeLoginSuccess asciiUpperCase (callbackReq None (Some ''zzz'') (Some ''storage'')) =
       \<lparr>res_status = 400,
        res_body = ApiBackendLoggedInPostMessage True
          ''Error in the request Backend not found zzz'' None\<rparr>
   \<and> routeLoginSuccess asciiUpperCase (callbackReq None (Some ''a'') (Some ''storage'')) =
       \<lparr>res_status = 200,
        res_body = ApiBackendLoggedInPostMessage False ''Logged in'' (Some ''a'')\<rparr>"
proof -
  have q: "req_config (statusReq x t i w) = Some config0" "req_session (statusReq x t i w) = Some x"
    "ls_type (req_query (statusReq x t i w)) = Some t"
    "ls_backendId (req_query (statusReq x t i w)) = i"
    "ls_id (req_query (statusReq x t i w)) = w" for x t i w
    by (simp_all add: statusReq_def)
  have p: "req_config (logoutReq j y) = Some config0" "req_session (logoutReq j y) = None"
    "lo_backendId (req_query (logoutReq j y)) = j" "lo_type (req_query (logoutReq j y)) = y"
    for j y
    by (simp_all add: logoutReq_def)
  have li: "req_config (listReq cf y) = Some cf" "req_session (listReq cf y) = Some True"
    "li_type (req_query (listReq cf y)) = y" for cf y
    by (simp_all add: listReq_def)
  have cb: "req_config (callbackReq x j y) = Some config0"
    "req_session (callbackReq x j y) = None"
    "cb_backendId (req_query (callbackReq x j y)) = j"
    "cb_type (req_query (callbackReq x j y)) = y"
    "cb_error (req_query (callbackReq x j y)) = x" for x j y
    by (simp_all add: callbackReq_def)
  have e: "toBackendEnum asciiUpperCase ''storage'' = Some STORAGE"
    "toBackendEnum asciiUpperCase ''foo'' = None"
    "toBackendEnum asciiUpperCase ''hosting'' = Some HOSTING"
    by (simp_all add: toBackendEnum_def asciiUpperCase_def upper_char_def)
  have g1: "getBackend config0 (Some True) (Some STORAGE) (Some ''zzz'') = Inr None"
    by (simp add: getBackend_def backend_ex)
  have g2: "getBackend config0 (Some False) (Some STORAGE) (Some ''b'') = Inr (Some backendB)"
    by (simp add: getBackend_def backend_ex)
  have g3: "getBackend config0 None (Some STORAGE) (Some ''zzz'') = Inr None"
    by (simp add: getBackend_def backend_ex)
  have g4: "getBackend config0 None (Some STORAGE) (Some ''a'') = Inr (Some backendA)"
    by (simp add: getBackend_def backend_ex)
  have f: "isLoggedIn backendB (Some False) = Inr False" "isLoggedIn backendA None = Inr False"
    "logout backendA None = Inr ()"
    "websiteMetaOf backendB (Some True) None = Inr MetaUndefined"
    by (simp_all add: backendA_def backendB_def websiteMetaOf_def)
  have hs: "map (toBackendData (Some True)) (getBackends config0 (Some HOSTING)) =
      map Inr [dataH]"
    by (simp add: config0_def facts_H)
  have se: "req_session ((statusReq True STORAGE None None)\<lparr>req_session := None\<rparr>) = None"
    by simp
  have be: "res_body (routeLoginStatus statusReqE) = ApiResponseError True []"
    by (simp add: routeLoginStatus_def loginStatusTry_def requiredParam_def codeOr_def
        statusReqE_def configE_def backendE_def getBackend_def loggedInOrFirst_def)
  have lm: "routeListBackends asciiUpperCase (listReq config0 None) =
       [\<lparr>res_status = 400,
         res_body = ApiResponseError True
           ''Error in the list backends request: Missing required parameter: Backend type''\<rparr>]"
    by (simp add: routeListBackends_def listTry_def requiredParam_def codeOr_def Let_def li)
  from route_status_codes
    [where r = "statusReq True STORAGE (Some ''zzz'') None" and c = config0 and s = True,
       THEN conjunct1]
  have 1: "routeLoginStatus (statusReq True STORAGE (Some ''zzz'') None) =
       \<lparr>res_status = 500, res_body = ApiResponseError True ''No backend found''\<rparr>"
    by (simp add: q g1)
  from route_status_codes
    [where r = "statusReq False STORAGE (Some ''b'') None" and c = config0 and s = False
       and b = backendB,
       THEN conjunct2, THEN conjunct1]
  have 2: "routeLoginStatus (statusReq False STORAGE (Some ''b'') None) =
       \<lparr>res_status = 401, res_body = ApiResponseError True ''Not logged in''\<rparr>"
    by (simp add: q g2 f)
  from route_status_codes
    [where r = "statusReq True STORAGE None None" and c = config0 and s = True
       and b = backendB and bd = dataB and u = "''bob''" and wm = MetaUndefined,
       THEN conjunct2, THEN conjunct2, THEN conjunct1]
  have 3: "routeLoginStatus (statusReq True STORAGE None None) =
       \<lparr>res_status = 200, res_body = ApiBackendLoginStatusResponse dataB ''bob'' MetaUndefined\<rparr>"
    by (simp add: q resolve_storage facts_B f)
  from route_status_codes
    [where r = "(statusReq True STORAGE None None)\<lparr>req_session := None\<rparr>",
       THEN conjunct2, THEN conjunct2, THEN conjunct2, THEN conjunct1]
  have 4: "res_status (routeLoginStatus ((statusReq True STORAGE None None)\<lparr>req_session := None\<rparr>)) =
       400"
    by (simp add: se)
  from route_status_codes
    [where r = statusReqE and flag = True and msg = "[]",
       THEN conjunct2, THEN conjunct2, THEN conjunct2, THEN conjunct2, THEN conjunct1]
  have 5: "\<exists>e. loginStatusTry statusReqE = Inl e \<and> [] = err_message e"
    using be by simp
  from route_status_codes
    [where q = "listReq config0 None" and up = asciiUpperCase,
       THEN conjunct2, THEN conjunct2, THEN conjunct2, THEN conjunct2, THEN conjunct2,
       THEN conjunct1]
  have 6: "map res_status (routeListBackends asciiUpperCase (listReq config0 None)) = [400]"
    by (simp add: li)
  from route_status_codes
    [where q = "listReq config0 (Some ''hosting'')" and up = asciiUpperCase and c = config0
       and t = "''hosting''" and ds = "[dataH]",
       THEN conjunct2, THEN conjunct2, THEN conjunct2, THEN conjunct2, THEN conjunct2,
       THEN conjunct2, THEN conjunct1]
  have 7: "routeListBackends asciiUpperCase (listReq config0 (Some ''hosting'')) =
       [\<lparr>res_status = 200, res_body = ApiBackendListResponse [dataH]\<rparr>]"
    using hs by (simp add: li e)
  from route_status_codes
    [where q = "listReq config0 None" and up = asciiUpperCase
       and res = "\<lparr>res_status = 400,
         res_body = ApiResponseError True
           ''Error in the list backends request: Missing required parameter: Backend type''\<rparr>"
       and msg = "''Error in the list backends request: Missing required parameter: Backend type''",
       THEN conjunct2, THEN conjunct2, THEN conjunct2, THEN conjunct2, THEN conjunct2,
       THEN conjunct2, THEN conjunct2, THEN conjunct1] lm
  have 8: "''Error in the list backends request: Missing required parameter: Backend type'' \<noteq> []"
    by simp
  from route_status_codes
    [where l = "logoutReq None (Some ''storage'')" and up = asciiUpperCase,
       THEN conjunct2, THEN conjunct2, THEN conjunct2, THEN conjunct2, THEN conjunct2,
       THEN conjunct2, THEN conjunct2, THEN conjunct2, THEN conjunct1]
  have 9: "res_status (routeLogout asciiUpperCase (logoutReq None (Some ''storage''))) = 400"
    by (simp add: p)
  from route_status_codes
    [where l = "logoutReq (Some ''a'') (Some ''foo'')" and up = asciiUpperCase
       and i = "''a''" and t = "''foo''",
       THEN conjunct2, THEN conjunct2, THEN conjunct2, THEN conjunct2, THEN conjunct2,
       THEN conjunct2, THEN conjunct2, THEN conjunct2, THEN conjunct2, THEN conjunct1]
  have 10: "res_status (routeLogout asciiUpperCase (logoutReq (Some ''a'') (Some ''foo''))) = 400"
    by (simp add: p e)
  from route_status_codes
    [where l = "logoutReq (Some ''zzz'') (Some ''storage'')" and up = asciiUpperCase
       and i = "''zzz''" and t = "''storage''" and c' = config0,
       THEN conjunct2, THEN conjunct2, THEN conjunct2, THEN conjunct2, THEN conjunct2,
       THEN conjunct2, THEN conjunct2, THEN conjunct2, THEN conjunct2, THEN conjunct2,
       THEN conjunct1]
  have 11: "routeLogout asciiUpperCase (logoutReq (Some ''zzz'') (Some ''storage'')) =
       \<lparr>res_status = 400,
        res_body = ApiResponseError True
          ''Error in the logout request: Backend not found zzz STORAGE''\<rparr>"
    by (simp add: p e g3)
  from route_status_codes
    [where l = "logoutReq (Some ''a'') (Some ''storage'')" and up = asciiUpperCase
       and i = "''a''" and t = "''storage''" and c' = config0 and b' = backendA,
       THEN conjunct2, THEN conjunct2, THEN conjunct2, THEN conjunct2, THEN conjunct2,
       THEN conjunct2, THEN conjunct2, THEN conjunct2, THEN conjunct2, THEN conjunct2,
       THEN conjunct2, THEN conjunct1]
  have 12: "routeLogout asciiUpperCase (logoutReq (Some ''a'') (Some ''storage'')) =
       \<lparr>res_status = 200, res_body = ApiResponseError False ''OK''\<rparr>"
    by (simp add: p e g4 f)
  from route_status_codes
    [where l = "logoutReq (Some ''zzz'') (Some ''storage'')" and up = asciiUpperCase
       and msg = "''Error in the logout request: Backend not found zzz STORAGE''",
       THEN conjunct2, THEN conjunct2, THEN conjunct2, THEN conjunct2, THEN conjunct2,
       THEN conjunct2, THEN conjunct2, THEN conjunct2, THEN conjunct2, THEN conjunct2,
       THEN conjunct2, THEN conjunct2, THEN conjunct1] 11
  have 13: "''Error in the logout request: Backend not found zzz STORAGE'' \<noteq> []"
    by simp
  from route_status_codes
    [where p = "callbackReq (Some ''denied'') None None" and up = asciiUpperCase
       and e = "''denied''",
       THEN conjunct2, THEN conjunct2, THEN conjunct2, THEN conjunct2, THEN conjunct2,
       THEN conjunct2, THEN conjunct2, THEN conjunct2, THEN conjunct2, THEN conjunct2,
       THEN conjunct2, THEN conjunct2, THEN conjunct2, THEN conjunct1]
  have 14: "routeLoginSuccess asciiUpperCase (callbackReq (Some ''denied'') None None) =
       \<lparr>res_status = 400,
        res_body = ApiBackendLoggedInPostMessage True ''Error in the request denied'' None\<rparr>"
    by (simp add: cb)
  from route_status_codes
    [where p = "callbackReq None None (Some ''storage'')" and up = asciiUpperCase,
       THEN conjunct2, THEN conjunct2, THEN conjunct2, THEN conjunct2, THEN conjunct2,
       THEN conjunct2, THEN conjunct2, THEN conjunct2, THEN conjunct2, THEN conjunct2,
       THEN conjunct2, THEN conjunct2, THEN conjunct2, THEN conjunct2, THEN conjunct1]
  have 15: "res_status (routeLoginSuccess asciiUpperCase (callbackReq None None (Some ''storage''))) = 400"
    by (simp add: cb)
  from route_status_codes
    [where p = "callbackReq None (Some ''a'') (Some ''foo'')" and up = asciiUpperCase
       and i = "''a''" and t = "''foo''",
       THEN conjunct2, THEN conjunct2, THEN conjunct2, THEN conjunct2, THEN conjunct2,
       THEN conjunct2, THEN conjunct2, THEN conjunct2, THEN conjunct2, THEN conjunct2,
       THEN conjunct2, THEN conjunct2, THEN conjunct2, THEN conjunct2, THEN conjunct2,
       THEN conjunct1]
  have 16: "res_status (routeLoginSuccess asciiUpperCase (callbackReq None (Some ''a'') (Some ''foo''))) =
       400"
    by (simp add: cb e)
  from route_status_codes
    [where p = "callbackReq None (Some ''zzz'') (Some ''storage'')" and up = asciiUpperCase
       and i = "''zzz''" and t = "''storage''" and c' = config0,
       THEN conjunct2, THEN conjunct2, THEN conjunct2, THEN conjunct2, THEN conjunct2,
       THEN conjunct2, THEN conjunct2, THEN conjunct2, THEN conjunct2, THEN conjunct2,
       THEN conjunct2, THEN conjunct2, THEN conjunct2, THEN conjunct2, THEN conjunct2,
       THEN conjunct2, THEN conjunct1]
  have 17: "routeLoginSuccess asciiUpperCase (callbackReq None (Some ''zzz'') (Some ''storage'')) =
       \<lparr>res_status = 400,
        res_body = ApiBackendLoggedInPostMessage True
          ''Error in the request Backend not found zzz'' None\<rparr>"
    by (simp add: cb e g3)
  from route_status_codes
    [where p = "callbackReq None (Some ''a'') (Some ''storage'')" and up = asciiUpperCase
       and i = "''a''" and t = "''storage''" and c' = config0 and b' = backendA,
       THEN conjunct2, THEN conjunct2, THEN conjunct2, THEN conjunct2, THEN conjunct2,
       THEN conjunct2, THEN conjunct2, THEN conjunct2, THEN conjunct2, THEN conjunct2,
       THEN conjunct2, THEN conjunct2, THEN conjunct2, THEN conjunct2, THEN conjunct2,
       THEN conjunct2, THEN conjunct2, THEN conjunct1]
  have 18: "routeLoginSuccess asciiUpperCase (callbackReq None (Some ''a'') (Some ''storage'')) =
       \<lparr>res_status = 200,
        res_body = ApiBackendLoggedInPostMessage False ''Logged in'' (Some ''a'')\<rparr>"
    by (simp add: cb e g4)
  from route_status_codes
    [where p = "callbackReq (Some ''denied'') None None" and up = asciiUpperCase
       and msg = "''Error in the request denied''" and bid = None,
       THEN conjunct2, THEN conjunct2, THEN conjunct2, THEN conjunct2, THEN conjunct2,
       THEN conjunct2, THEN conjunct2, THEN conjunct2, THEN conjunct2, THEN conjunct2,
       THEN conjunct2, THEN conjunct2, THEN conjunct2, THEN conjunct2, THEN conjunct2,
       THEN conjunct2, THEN conjunct2, THEN conjunct2] 14
  have 19: "''Error in the request denied'' \<noteq> []"
    by simp
  from 1 2 3 4 5 6 7 8 9 10 11 12 13 14 15 16 17 18 19 g1 g2 g3 g4 e f hs se be lm li
  show ?thesis by simp
qed


section \<open>Properties of the entity store\<close>

lemma length_le_foldr_max: "x \<in> set ids \<Longrightarrow> length x \<le> foldr max (map length ids) 0"
  by (induction ids) auto

lemma freshId_fresh: "freshId ids \<notin> set ids"
proof
  assume "freshId ids \<in> set ids"
  from length_le_foldr_max [OF this] show False by (simp add: freshId_def)
qed

text \<open>
  Claim C5: with \<open>allowCallerSuppliedId\<close> false, \<open>create\<close> ignores a caller-supplied id
  (the result is the same whatever id is supplied) and stores the entity under a
  generated id that no entity of the collection has; with the flag true and a supplied id
  that is already present it fails with \<open>DuplicateIdError\<close>. The flag that \<open>store.ts\<close>
  configures is true for the pages collection and false for the elements collection.
\<close>

theorem create_ids:
  "createIn elementsOptions suppliedId payload coll =
     Inr (\<lparr>ent_id = freshId (map ent_id coll), ent_fields = payload\<rparr>,
          coll @ [\<lparr>ent_id = freshId (map ent_id coll), ent_fields = payload\<rparr>])
   \<and> create suppliedId payload False coll =
     Inr (\<lparr>ent_id = freshId (map ent_id coll), ent_fields = payload\<rparr>,
          coll @ [\<lparr>ent_id = freshId (map ent_id coll), ent_fields = payload\<rparr>])
   \<and> freshId (map ent_id coll) \<notin> set (map ent_id coll)
   \<and> (i \<in> set (map ent_id coll) \<longrightarrow>
        create (Some i) payload True coll = Inl DuplicateIdError
        \<and> createIn pagesOptions (Some i) payload coll = Inl DuplicateIdError)
   \<and> allowSetId pagesOptions \<and> \<not> allowSetId elementsOptions"
  using freshId_fresh [of "map ent_id coll"]
  by (simp add: create_def createIn_def pagesOptions_def elementsOptions_def Let_def)

theorem create_ids_witness:
  "''home'' \<in> set (map ent_id [\<lparr>ent_id = ''home'', ent_fields = (1::nat)\<rparr>])
   \<and> createIn pagesOptions (Some ''home'') (2::nat) [\<lparr>ent_id = ''home'', ent_fields = 1\<rparr>] =
       Inl DuplicateIdError
   \<and> createIn elementsOptions (Some ''home'') (2::nat) [\<lparr>ent_id = ''home'', ent_fields = 1\<rparr>] =
       Inr (\<lparr>ent_id = ''xxxxx'', ent_fields = 2\<rparr>,
            [\<lparr>ent_id = ''home'', ent_fields = 1\<rparr>, \<lparr>ent_id = ''xxxxx'', ent_fields = 2\<rparr>])"
proof -
  have m: "''home'' \<in> set (map ent_id [\<lparr>ent_id = ''home'', ent_fields = (1::nat)\<rparr>])" by simp
  have f: "freshId (map ent_id [\<lparr>ent_id = ''home'', ent_fields = (1::nat)\<rparr>]) = ''xxxxx''"
    by (simp add: freshId_def)
  from create_ids [where i = "''home''" and coll = "[\<lparr>ent_id = ''home'', ent_fields = (1::nat)\<rparr>]"
      and payload = "2::nat" and suppliedId = "Some ''home''"] m f
  show ?thesis by simp
qed


section \<open>Properties of the publication jobs\<close>

lemma jobIdOf_inj: "jobIdOf m = jobIdOf n \<Longrightarrow> m = n"
proof -
  assume "jobIdOf m = jobIdOf n"
  then have "length (jobIdOf m) = length (jobIdOf n)" by simp
  then show ?thesis by (simp add: jobIdOf_def)
qed

lemma length_appendLast: "length (appendLast xs groups) = max 1 (length groups)"
  by (cases groups rule: rev_cases) (simp_all add: appendLast_def)

lemma last_appendLast: "x \<in> set xs \<Longrightarrow> x \<in> set (last (appendLast xs groups))"
  by (cases groups rule: rev_cases) (simp_all add: appendLast_def)

lemma orch_inv_new: "orch_inv (newOrchestrator start retention)"
  by (simp add: orch_inv_def newOrchestrator_def)

lemma ttl_step: "ttl (step e orch) = ttl orch"
  by (cases e) (auto simp: updateJob_def split: option.splits)

lemma orch_inv_updateJob:
  assumes "orch_inv orch"
    and "\<And>j. job_ok orch jid j \<Longrightarrow> job_ok orch jid (f j)"
  shows "orch_inv (updateJob jid f orch)"
proof -
  have ok: "job_ok (orch\<lparr>jobs := m\<rparr>) i j = job_ok orch i j" for m i j
    by (simp add: job_ok_def)
  show ?thesis
    using assms by (auto simp: orch_inv_def updateJob_def ok split: option.splits)
qed

lemma orch_inv_step: "orch_inv orch \<Longrightarrow> orch_inv (step e orch)"
proof (cases e)
  case (PublishRequest msg)
  assume inv: "orch_inv orch"
  show ?thesis
    unfolding PublishRequest orch_inv_def
  proof (intro allI impI)
    fix jid j
    assume h: "jobs (step (PublishRequest msg) orch) jid = Some j"
    show "job_ok (step (PublishRequest msg) orch) jid j"
    proof (cases "jid = jobIdOf (nextJob orch)")
      case True
      with h show ?thesis by (auto simp: job_ok_def newJob_def)
    next
      case False
      with h have "jobs orch jid = Some j" by simp
      with inv have "job_ok orch jid j" by (simp add: orch_inv_def)
      then show ?thesis by (auto simp: job_ok_def intro: less_SucI)
    qed
  qed
next
  case (Progress jid logLines errorLines)
  assume inv: "orch_inv orch"
  show ?thesis unfolding Progress step.simps
    by (rule orch_inv_updateJob [OF inv])
       (auto simp: job_ok_def length_appendLast split: PipelineStep.splits)
next
  case (WriteDone jid)
  assume inv: "orch_inv orch"
  show ?thesis unfolding WriteDone step.simps
    by (rule orch_inv_updateJob [OF inv]) (auto simp: job_ok_def)
next
  case (Published jid u msg)
  assume inv: "orch_inv orch"
  show ?thesis unfolding Published step.simps
    by (rule orch_inv_updateJob [OF inv]) (auto simp: job_ok_def)
next
  case (StepFailed jid errorLine msg)
  assume inv: "orch_inv orch"
  show ?thesis unfolding StepFailed step.simps
    by (rule orch_inv_updateJob [OF inv])
       (auto simp: job_ok_def length_appendLast split: PipelineStep.splits)
next
  case (Poll jid)
  assume "orch_inv orch"
  then show ?thesis by (simp add: Poll)
next
  case (Elapse n)
  assume inv: "orch_inv orch"
  show ?thesis
    unfolding Elapse orch_inv_def
  proof (intro allI impI)
    fix jid j
    assume h: "jobs (step (Elapse n) orch) jid = Some j"
    then have j: "jobs orch jid = Some j" and live: "\<not> expired (now orch + n) j"
      by (auto split: option.splits if_splits)
    from inv j have "job_ok orch jid j" by (simp add: orch_inv_def)
    with live show "job_ok (step (Elapse n) orch) jid j"
      by (auto simp: job_ok_def expired_def)
  qed
qed

lemma orch_inv_run: "orch_inv orch \<Longrightarrow> orch_inv (run es orch)"
  unfolding run_def by (induction es arbitrary: orch) (auto intro: orch_inv_step)

lemma run_Cons: "run (e # es) orch = run es (step e orch)"
  by (simp add: run_def)

lemma run_Nil: "run [] orch = orch"
  by (simp add: run_def)


lemma issued_of_inv: "orch_inv orch \<Longrightarrow> jobs orch jid = Some j \<Longrightarrow> issued jid orch"
  by (auto simp: orch_inv_def job_ok_def issued_def)

lemma nextJob_step: "nextJob orch \<le> nextJob (step e orch)"
  by (cases e) (auto simp: updateJob_def split: option.splits)

lemma issued_step: "issued jid orch \<Longrightarrow> issued jid (step e orch)"
  using nextJob_step [of orch e] by (auto simp: issued_def intro: less_le_trans)

lemma issued_fresh: "issued jid orch \<Longrightarrow> jid \<noteq> jobIdOf (nextJob orch)"
  by (auto simp: issued_def dest: jobIdOf_inj)

lemma absent_step: "issued jid orch \<Longrightarrow> jobs orch jid = None \<Longrightarrow> jobs (step e orch) jid = None"
  by (cases e) (auto simp: updateJob_def issued_fresh split: option.splits)

lemma absent_run: "issued jid orch \<Longrightarrow> jobs orch jid = None \<Longrightarrow> jobs (run es orch) jid = None"
proof (induction es arbitrary: orch)
  case Nil
  then show ?case by (simp add: run_Nil)
next
  case (Cons e es)
  from Cons.prems have "issued jid (step e orch)" "jobs (step e orch) jid = None"
    by (simp_all add: issued_step absent_step)
  from Cons.IH [OF this] show ?case by (simp add: run_Cons)
qed

lemma terminal_step:
  "issued jid orch \<Longrightarrow> jobs orch jid = Some j \<Longrightarrow> status (job_data j) \<noteq> IN_PROGRESS \<Longrightarrow>
   jobs (step e orch) jid = Some j \<or> jobs (step e orch) jid = None"
  by (cases e) (auto simp: updateJob_def issued_fresh split: option.splits)

lemma terminal_run:
  "issued jid orch \<Longrightarrow> jobs orch jid = Some j \<Longrightarrow> status (job_data j) \<noteq> IN_PROGRESS \<Longrightarrow>
   jobs (run es orch) jid = Some j \<or> jobs (run es orch) jid = None"
proof (induction es arbitrary: orch)
  case Nil
  then show ?case by (simp add: run_Nil)
next
  case (Cons e es)
  from Cons.prems have i: "issued jid (step e orch)" by (simp add: issued_step)
  from terminal_step [OF Cons.prems, of e] show ?case
  proof
    assume "jobs (step e orch) jid = Some j"
    from Cons.IH [OF i this Cons.prems(3)] show ?thesis by (simp add: run_Cons)
  next
    assume "jobs (step e orch) jid = None"
    from absent_run [OF i this] show ?thesis by (simp add: run_Cons)
  qed
qed

lemma deadline_step:
  "issued jid orch \<Longrightarrow> jobs orch jid = Some j \<Longrightarrow> jobs (step e orch) jid = Some j' \<Longrightarrow>
   timeout (job_data j') = timeout (job_data j)"
  by (cases e) (auto simp: updateJob_def issued_fresh split: option.splits if_splits)

lemma deadline_run:
  "issued jid orch \<Longrightarrow> jobs orch jid = Some j \<Longrightarrow> jobs (run es orch) jid = Some j' \<Longrightarrow>
   timeout (job_data j') = timeout (job_data j)"
proof (induction es arbitrary: orch j)
  case Nil
  then show ?case by (simp add: run_Nil)
next
  case (Cons e es)
  from Cons.prems have i: "issued jid (step e orch)" by (simp add: issued_step)
  show ?case
  proof (cases "jobs (step e orch) jid")
    case None
    from absent_run [OF i None, of es] Cons.prems(3) show ?thesis by (simp add: run_Cons)
  next
    case (Some j1)
    from Cons.prems(3) have "jobs (run es (step e orch)) jid = Some j'" by (simp add: run_Cons)
    from Cons.IH [OF i Some this] deadline_step [OF Cons.prems(1,2) Some]
    show ?thesis by simp
  qed
qed

lemma ttl_run: "ttl (run es orch) = ttl orch"
  unfolding run_def by (induction es arbitrary: orch) (simp_all add: ttl_step)

lemma expired_gone:
  assumes inv: "orch_inv orch" and j: "jobs orch jid = Some j"
    and d: "timeout (job_data j) = Some d"
    and late: "d < now (run es orch) \<or> (0 < ttl orch \<and> d \<le> now (run es orch))"
  shows "jobs (run es orch) jid = None"
proof (rule ccontr)
  assume "jobs (run es orch) jid \<noteq> None"
  then obtain j' where j': "jobs (run es orch) jid = Some j'" by auto
  from deadline_run [OF issued_of_inv [OF inv j] j j'] d
  have "timeout (job_data j') = Some d" by simp
  moreover from orch_inv_run [OF inv, of es] j' have "job_ok (run es orch) jid j'"
    by (simp add: orch_inv_def)
  ultimately show False using late by (auto simp: job_ok_def ttl_run)
qed

lemma poll_Some:
  "poll jid orch = Inr r \<Longrightarrow> \<exists>j. jobs orch jid = Some j \<and> r = (job_data j)\<lparr>timeout := None\<rparr>"
  by (auto simp: poll_def split: option.splits)

text \<open>
  Claim C6: for every job of an orchestrator that started empty, the polling response
  consists of \<open>jobId\<close> (the id polled), \<open>status\<close>, \<open>message\<close>, the optional \<open>url\<close>,
  \<open>logs\<close> and \<open>errors\<close>, with no timer; the status is one of \<open>IN_PROGRESS\<close>,
  \<open>SUCCESS\<close>, \<open>ERROR\<close>; \<open>logs\<close> and \<open>errors\<close> are lists of groups of lines with one
  group per step started (one while the write step runs, two from the publish step on,
  two for a successful job, which also has its url).
\<close>

theorem poll_response_shape:
  assumes "poll jid (run es (newOrchestrator start retention)) = Inr r"
  shows "r = \<lparr>jobId = jid, status = status r, message = message r, url = url r,
              timeout = None, logs = logs r, errors = errors r\<rparr>
    \<and> status r \<in> {IN_PROGRESS, SUCCESS, ERROR}
    \<and> length (logs r) = length (errors r)
    \<and> (length (logs r) = 1 \<or> length (logs r) = 2)
    \<and> (status r = SUCCESS \<longrightarrow> length (logs r) = 2 \<and> url r \<noteq> None)"
proof -
  from poll_Some [OF assms] obtain j where
    j: "jobs (run es (newOrchestrator start retention)) jid = Some j"
    and r: "r = (job_data j)\<lparr>timeout := None\<rparr>"
    by blast
  from orch_inv_run [OF orch_inv_new, of es start retention] j
  have ok: "job_ok (run es (newOrchestrator start retention)) jid j"
    by (simp add: orch_inv_def)
  have st: "status r \<in> {IN_PROGRESS, SUCCESS, ERROR}" by (cases "status r") simp_all
  from ok r st show ?thesis
    by (cases "job_step j") (auto simp: job_ok_def)
qed

lemmas job_ex = run_def updateJob_def newJob_def jobIdOf_def newOrchestrator_def poll_def
  appendLast_def expired_def

theorem poll_response_shape_witness:
  "poll ''j'' (run events0 (newOrchestrator 0 60)) =
     Inr \<lparr>jobId = ''j'', status = SUCCESS, message = ''done'', url = Some ''https://site'',
          timeout = None, logs = [[''index.html''], []], errors = [[], []]\<rparr>"
proof -
  have v: "poll ''j'' (run events0 (newOrchestrator 0 60)) =
     Inr \<lparr>jobId = ''j'', status = SUCCESS, message = ''done'', url = Some ''https://site'',
          timeout = None, logs = [[''index.html''], []], errors = [[], []]\<rparr>"
    by (simp add: events0_def job_ex)
  from poll_response_shape [OF v] v show ?thesis by simp
qed

text \<open>
  Claim C7: in an orchestrator that started empty, a poll changes nothing; once a poll of
  a job has answered a terminal snapshot, after any further events (polls included) a
  poll answers that same snapshot or, once the job is evicted, \<open>NotFoundError\<close>; and
  when the running step of a job in progress fails (the write step, when the job has
  just been created), the poll answers \<open>ERROR\<close> with the failure's message, with the
  failure's line in the step's group of \<open>errors\<close>, and every later poll answers that
  snapshot or \<open>NotFoundError\<close>, never \<open>SUCCESS\<close>.
\<close>

theorem terminal_job_stable:
  assumes "orch = run history (newOrchestrator start retention)"
  shows "step (Poll k) orch = orch
    \<and> (poll jid orch = Inr r \<and> status r \<noteq> IN_PROGRESS \<longrightarrow>
         poll jid (run es orch) = Inr r \<or> poll jid (run es orch) = Inl NotFoundError)
    \<and> (poll jid orch = Inr r \<and> status r = IN_PROGRESS \<longrightarrow>
         (\<exists>r'. poll jid (step (StepFailed jid line msg) orch) = Inr r' \<and> status r' = ERROR
               \<and> message r' = msg \<and> line \<in> set (last (errors r'))
               \<and> (poll jid (run es (step (StepFailed jid line msg) orch)) = Inr r'
                   \<or> poll jid (run es (step (StepFailed jid line msg) orch)) = Inl NotFoundError)))"
proof (intro conjI impI)
  show "step (Poll k) orch = orch" by simp
next
  assume h: "poll jid orch = Inr r \<and> status r \<noteq> IN_PROGRESS"
  then obtain j where j: "jobs orch jid = Some j" and r: "r = (job_data j)\<lparr>timeout := None\<rparr>"
    using poll_Some by blast
  have inv: "orch_inv orch" unfolding assms by (rule orch_inv_run [OF orch_inv_new])
  from h r have "status (job_data j) \<noteq> IN_PROGRESS" by simp
  from terminal_run [OF issued_of_inv [OF inv j] j this, of es] r
  show "poll jid (run es orch) = Inr r \<or> poll jid (run es orch) = Inl NotFoundError"
    by (auto simp: poll_def)
next
  assume h: "poll jid orch = Inr r \<and> status r = IN_PROGRESS"
  then obtain j where j: "jobs orch jid = Some j" and r: "r = (job_data j)\<lparr>timeout := None\<rparr>"
    using poll_Some by blast
  have inv: "orch_inv orch" unfolding assms by (rule orch_inv_run [OF orch_inv_new])
  let ?o = "step (StepFailed jid line msg) orch"
  let ?j = "j\<lparr>job_data := (job_data j)\<lparr>status := ERROR, message := msg,
                errors := appendLast [line] (errors (job_data j))\<rparr>\<rparr>"
  from h r have run: "status (job_data j) = IN_PROGRESS" by simp
  with j have j': "jobs ?o jid = Some ?j" by (simp add: updateJob_def)
  have i: "issued jid ?o" by (rule issued_step [OF issued_of_inv [OF inv j]])
  have t: "status (job_data ?j) \<noteq> IN_PROGRESS" by simp
  have p: "poll jid ?o = Inr ((job_data ?j)\<lparr>timeout := None\<rparr>)"
    using j' by (simp add: poll_def)
  from terminal_run [OF i j' t, of es]
  have "poll jid (run es ?o) = Inr ((job_data ?j)\<lparr>timeout := None\<rparr>)
      \<or> poll jid (run es ?o) = Inl NotFoundError"
    by (auto simp: poll_def)
  with p show "\<exists>r'. poll jid ?o = Inr r' \<and> status r' = ERROR
               \<and> message r' = msg \<and> line \<in> set (last (errors r'))
               \<and> (poll jid (run es ?o) = Inr r' \<or> poll jid (run es ?o) = Inl NotFoundError)"
    by (auto simp: last_appendLast)
qed

theorem terminal_job_stable_witness:
  "poll ''j'' (run [PublishRequest ''go''] (newOrchestrator 1000 60)) = Inr runningJob
   \<and> status runningJob = IN_PROGRESS
   \<and> poll ''j'' (step (StepFailed ''j'' ''disk full'' ''write failed'')
        (run [PublishRequest ''go''] (newOrchestrator 1000 60))) = Inr failedJob
   \<and> (poll ''j'' (run [WriteDone ''j'', Published ''j'' ''https://site'' ''done'', Poll ''j'']
          (step (StepFailed ''j'' ''disk full'' ''write failed'')
            (run [PublishRequest ''go''] (newOrchestrator 1000 60)))) = Inr failedJob
       \<or> poll ''j'' (run [WriteDone ''j'', Published ''j'' ''https://site'' ''done'', Poll ''j'']
          (step (StepFailed ''j'' ''disk full'' ''write failed'')
            (run [PublishRequest ''go''] (newOrchestrator 1000 60)))) = Inl NotFoundError)
   \<and> poll ''j'' (run [WriteDone ''j'', Published ''j'' ''https://site'' ''done'', Poll ''j'']
          (step (StepFailed ''j'' ''disk full'' ''write failed'')
            (run [PublishRequest ''go''] (newOrchestrator 1000 60)))) = Inr failedJob"
proof -
  let ?o = "run [PublishRequest ''go''] (newOrchestrator 1000 60)"
  let ?es = "[WriteDone ''j'', Published ''j'' ''https://site'' ''done'', Poll ''j'']"
  have 1: "poll ''j'' ?o = Inr runningJob" by (simp add: job_ex runningJob_def)
  have 2: "status runningJob = IN_PROGRESS" by (simp add: runningJob_def)
  have 3: "poll ''j'' (step (StepFailed ''j'' ''disk full'' ''write failed'') ?o) = Inr failedJob"
    by (simp add: job_ex failedJob_def)
  from terminal_job_stable [where orch = ?o and history = "[PublishRequest ''go'']"
      and start = 1000 and retention = 60 and jid = "''j''" and r = runningJob and es = ?es
      and line = "''disk full''" and msg = "''write failed''",
      OF refl, THEN conjunct2, THEN conjunct2] 1 2 3
  have 4: "poll ''j'' (run ?es (step (StepFailed ''j'' ''disk full'' ''write failed'') ?o)) =
        Inr failedJob
      \<or> poll ''j'' (run ?es (step (StepFailed ''j'' ''disk full'' ''write failed'') ?o)) =
        Inl NotFoundError"
    by (auto simp del: step.simps)
  have 5: "poll ''j'' (run ?es (step (StepFailed ''j'' ''disk full'' ''write failed'') ?o)) =
        Inr failedJob"
    by (simp add: job_ex failedJob_def)
  from 1 2 3 4 5 show ?thesis by simp
qed

text \<open>
  Claim C8: in an orchestrator that started empty, a job is created with the deadline
  "creation time plus retention"; every job of the table has a deadline, which no event
  changes; and once the clock has passed the deadline (or reached it, for a positive
  retention) a poll of the job fails with \<open>NotFoundError\<close> whatever the job's status
  was, and keeps failing after any further events.
\<close>

theorem job_expiry:
  assumes "orch = run history (newOrchestrator start retention)"
  shows "jobs (step (PublishRequest msg) orch) (jobIdOf (nextJob orch)) =
        Some (newJob (jobIdOf (nextJob orch)) msg (now orch + ttl orch))
    \<and> timeout (job_data (newJob (jobIdOf (nextJob orch)) msg (now orch + ttl orch))) =
        Some (now orch + ttl orch)
    \<and> (jobs orch jid = Some j \<longrightarrow> timeout (job_data j) \<noteq> None)
    \<and> (jobs orch jid = Some j \<and> jobs (run es orch) jid = Some j' \<longrightarrow>
         timeout (job_data j') = timeout (job_data j))
    \<and> (jobs orch jid = Some j \<and> timeout (job_data j) = Some d
         \<and> (d < now (run es orch) \<or> (0 < ttl orch \<and> d \<le> now (run es orch))) \<longrightarrow>
         poll jid (run es orch) = Inl NotFoundError
         \<and> poll jid (run es' (run es orch)) = Inl NotFoundError)"
proof -
  have inv: "orch_inv orch" unfolding assms by (rule orch_inv_run [OF orch_inv_new])
  have a: "jobs (step (PublishRequest msg) orch) (jobIdOf (nextJob orch)) =
        Some (newJob (jobIdOf (nextJob orch)) msg (now orch + ttl orch))"
    by simp
  have b: "timeout (job_data (newJob (jobIdOf (nextJob orch)) msg (now orch + ttl orch))) =
        Some (now orch + ttl orch)"
    by (simp add: newJob_def)
  have c: "jobs orch jid = Some j \<longrightarrow> timeout (job_data j) \<noteq> None"
    using inv by (auto simp: orch_inv_def job_ok_def)
  have d: "jobs orch jid = Some j \<and> jobs (run es orch) jid = Some j' \<longrightarrow>
         timeout (job_data j') = timeout (job_data j)"
    using deadline_run [of jid orch j es j'] issued_of_inv [OF inv, of jid j] by blast
  have e: "jobs orch jid = Some j \<and> timeout (job_data j) = Some d
         \<and> (d < now (run es orch) \<or> (0 < ttl orch \<and> d \<le> now (run es orch))) \<longrightarrow>
         poll jid (run es orch) = Inl NotFoundError
         \<and> poll jid (run es' (run es orch)) = Inl NotFoundError"
  proof
    assume h: "jobs orch jid = Some j \<and> timeout (job_data j) = Some d
         \<and> (d < now (run es orch) \<or> (0 < ttl orch \<and> d \<le> now (run es orch)))"
    then have gone: "jobs (run es orch) jid = None"
      using expired_gone [OF inv, of jid j d es] by blast
    from h have "issued jid orch" using issued_of_inv [OF inv] by blast
    then have "issued jid (run es orch)"
      unfolding run_def by (induction es arbitrary: orch) (simp_all add: issued_step)
    from absent_run [OF this gone, of es'] gone
    show "poll jid (run es orch) = Inl NotFoundError
         \<and> poll jid (run es' (run es orch)) = Inl NotFoundError"
      by (simp add: poll_def)
  qed
  from a b c d e show ?thesis by blast
qed

theorem job_expiry_witness:
  "jobs (run [PublishRequest ''go''] (newOrchestrator 1000 60)) ''j'' = Some (newJob ''j'' ''go'' 1060)
   \<and> timeout (job_data (newJob ''j'' ''go'' 1060)) = Some 1060
   \<and> 1060 < now (run [Elapse 61] (run [PublishRequest ''go''] (newOrchestrator 1000 60)))
   \<and> poll ''j'' (run [Elapse 61] (run [PublishRequest ''go''] (newOrchestrator 1000 60))) =
       Inl NotFoundError
   \<and> poll ''j'' (run [PublishRequest ''again'', Poll ''j'']
        (run [Elapse 61] (run [PublishRequest ''go''] (newOrchestrator 1000 60)))) =
       Inl NotFoundError"
proof -
  let ?o = "run [PublishRequest ''go''] (newOrchestrator 1000 60)"
  have 1: "jobs ?o ''j'' = Some (newJob ''j'' ''go'' 1060)"
    by (simp add: run_def jobIdOf_def newOrchestrator_def)
  have 2: "timeout (job_data (newJob ''j'' ''go'' 1060)) = Some 1060"
    by (simp add: newJob_def)
  have 3: "1060 < now (run [Elapse 61] ?o)"
    by (simp add: run_def newOrchestrator_def)
  from job_expiry [where orch = ?o and history = "[PublishRequest ''go'']"
      and start = 1000 and retention = 60 and jid = "''j''"
      and j = "newJob ''j'' ''go'' 1060" and d = 1060
      and es = "[Elapse 61]" and es' = "[PublishRequest ''again'', Poll ''j'']",
      OF refl, THEN conjunct2, THEN conjunct2, THEN conjunct2, THEN conjunct2] 1 2 3
  have 4: "poll ''j'' (run [Elapse 61] ?o) = Inl NotFoundError
     \<and> poll ''j'' (run [PublishRequest ''again'', Poll ''j''] (run [Elapse 61] ?o)) =
       Inl NotFoundError"
    by blast
  from 1 2 3 4 show ?thesis by simp
qed

end
